theory Spec2Isabelle
  imports Complex_Main "HOL-Library.Multiset"
begin

section \<open>JavaScript values\<close>

text \<open>
  The handlers of the BuildConnect server receive JSON request bodies and pass the parsed
  values on to Firestore, Razorpay and nodemailer. A JavaScript number is an IEEE binary64
  value: a finite rational, one of the two infinities, or NaN. The two zeros are not
  distinguished, since no handler tells them apart.
\<close>

datatype jsnum = NaN | PosInf | NegInf | Fin rat

datatype jsval =
    Undefined
  | Null
  | Bool bool
  | Num jsnum
  | Str string
  | Arr "jsval list"
  | Obj "(string \<times> jsval) list"

type_synonym fields = "(string \<times> jsval) list"

datatype exn = TypeError | RangeError | Rejected

text \<open>Truthiness, as \<open>!v\<close> and \<open>v || d\<close> read it.\<close>

fun truthy :: "jsval \<Rightarrow> bool" where
  "truthy Undefined = False"
| "truthy Null = False"
| "truthy (Bool b) = b"
| "truthy (Num NaN) = False"
| "truthy (Num (Fin x)) = (x \<noteq> 0)"
| "truthy (Num n) = True"
| "truthy (Str s) = (s \<noteq> [])"
| "truthy (Arr xs) = True"
| "truthy (Obj kvs) = True"

text \<open>
  Destructuring \<open>const { k } = req.body\<close>: a field that is absent reads as
  \<open>undefined\<close>. The body is the object that \<open>express.json()\<close> parsed, the empty
  object when the request carries no JSON; each key occurs once.
\<close>

definition field :: "fields \<Rightarrow> string \<Rightarrow> jsval" where
  "field kvs k = (case map_of kvs k of None \<Rightarrow> Undefined | Some v \<Rightarrow> v)"

text \<open>
  Property access \<open>v.k\<close>. It throws a TypeError on \<open>undefined\<close> and \<open>null\<close>.
  The handlers read only \<open>length\<close> and keys that no built-in prototype defines, so every
  other key of a primitive or an array reads as \<open>undefined\<close>.
\<close>

fun get_prop :: "jsval \<Rightarrow> string \<Rightarrow> exn + jsval" where
  "get_prop Undefined k = Inl TypeError"
| "get_prop Null k = Inl TypeError"
| "get_prop (Obj kvs) k = Inr (field kvs k)"
| "get_prop (Arr xs) k = Inr (if k = ''length'' then Num (Fin (of_nat (length xs))) else Undefined)"
| "get_prop (Str s) k = Inr (if k = ''length'' then Num (Fin (of_nat (length s))) else Undefined)"
| "get_prop v k = Inr Undefined"

text \<open>An object literal with a spread: a later key replaces the value of an earlier one.\<close>

fun obj_set :: "fields \<Rightarrow> string \<Rightarrow> jsval \<Rightarrow> fields" where
  "obj_set [] k v = [(k, v)]"
| "obj_set ((k', v') # kvs) k v = (if k' = k then (k, v) # kvs else (k', v') # obj_set kvs k v)"

definition spread :: "fields \<Rightarrow> fields \<Rightarrow> fields" where
  "spread base more = fold (\<lambda>kv acc. obj_set acc (fst kv) (snd kv)) more base"

section \<open>Responses\<close>

record response =
  status :: jsval
  body :: jsval

text \<open>
  \<open>res.status(n).send(b)\<close> and \<open>res.status(n).json(b)\<close>: the status and the value the
  handler hands over as the body. Logging to the console is not part of the model.
\<close>

definition send :: "rat \<Rightarrow> jsval \<Rightarrow> response" where
  "send n b = \<lparr>status = Num (Fin n), body = b\<rparr>"

section \<open>The external capabilities\<close>

text \<open>
  Firestore, Firebase Auth, nodemailer and Razorpay are not part of the repository. The
  world records what the handlers can observe of them: the documents of every collection,
  the identifiers Firestore generates, which calls the services reject, and the trace of
  every call made. A handler that leaves the world unchanged has called no capability.
  The world also holds what Express and Node make of a response whose status or body is
  not one they define a single behaviour for.
\<close>

record mail =
  mail_to :: jsval
  mail_subject :: string
  mail_html :: "string list"

datatype call =
    DbAdd string fields
  | DbUpdate string string fields
  | DbDelete string string
  | DbGet string
  | DbWhere string string jsval
  | GetUser jsval
  | SendMail mail
  | OrdersCreate jsval

text \<open>The calls of a trace that send mail.\<close>

fun is_SendMail :: "call \<Rightarrow> bool" where
  "is_SendMail (SendMail m) = True"
| "is_SendMail k = False"

record world =
  store :: "string \<Rightarrow> (string \<times> fields) list"
  auto_ids :: "nat \<Rightarrow> string"
  next_auto :: nat
  db_rejects :: "call \<Rightarrow> bool"
  getUser :: "jsval \<Rightarrow> exn + jsval"
  sendMail_fails :: "mail \<Rightarrow> bool"
  orders_create :: "jsval \<Rightarrow> jsval + jsval"
  clock :: nat
  calls :: "call list"
  other_response :: "jsval \<Rightarrow> jsval \<Rightarrow> exn + response"

definition traced :: "call \<Rightarrow> world \<Rightarrow> world" where
  "traced k w = w\<lparr>calls := calls w @ [k]\<rparr>"

text \<open>
  \<open>db.collection(c).add(d)\<close>: Firestore picks an identifier and creates the document;
  the call rejects when the service refuses it or the identifier is taken.
\<close>

definition db_add :: "string \<Rightarrow> fields \<Rightarrow> world \<Rightarrow> (exn + string) \<times> world" where
  "db_add c d w =
     (let i = auto_ids w (next_auto w);
          w1 = (traced (DbAdd c d) w)\<lparr>next_auto := Suc (next_auto w)\<rparr>
      in if db_rejects w (DbAdd c d) \<or> i \<in> fst ` set (store w c) then (Inl Rejected, w1)
         else (Inr i, w1\<lparr>store := (store w)(c := store w c @ [(i, d)])\<rparr>))"

text \<open>
  \<open>db.collection(c).doc(i).update(p)\<close>: the named fields of an existing document are
  replaced; the call rejects when the document does not exist, as Firestore documents
  and as the specification says of cancelling an unknown booking.
\<close>

definition db_update :: "string \<Rightarrow> string \<Rightarrow> fields \<Rightarrow> world \<Rightarrow> (exn + unit) \<times> world" where
  "db_update c i p w =
     (let w1 = traced (DbUpdate c i p) w
      in if db_rejects w (DbUpdate c i p) \<or> i \<notin> fst ` set (store w c) then (Inl Rejected, w1)
         else (Inr (), w1\<lparr>store := (store w)(c :=
                 map (\<lambda>doc. if fst doc = i then (i, spread (snd doc) p) else doc) (store w c))\<rparr>))"

text \<open>\<open>db.collection(c).doc(i).delete()\<close>: succeeds also when there is no such document.\<close>

definition db_delete :: "string \<Rightarrow> string \<Rightarrow> world \<Rightarrow> (exn + unit) \<times> world" where
  "db_delete c i w =
     (let w1 = traced (DbDelete c i) w
      in if db_rejects w (DbDelete c i) then (Inl Rejected, w1)
         else (Inr (), w1\<lparr>store := (store w)(c := filter (\<lambda>doc. fst doc \<noteq> i) (store w c))\<rparr>))"

text \<open>\<open>db.collection(c).get()\<close> and \<open>db.collection(c).where(f, '==', v).get()\<close>.\<close>

definition db_get :: "string \<Rightarrow> world \<Rightarrow> (exn + (string \<times> fields) list) \<times> world" where
  "db_get c w =
     (let w1 = traced (DbGet c) w
      in if db_rejects w (DbGet c) then (Inl Rejected, w1) else (Inr (store w c), w1))"

definition db_where :: "string \<Rightarrow> string \<Rightarrow> jsval \<Rightarrow> world \<Rightarrow> (exn + (string \<times> fields) list) \<times> world" where
  "db_where c f v w =
     (let w1 = traced (DbWhere c f v) w
      in if db_rejects w (DbWhere c f v) then (Inl Rejected, w1)
         else (Inr (filter (\<lambda>doc. map_of (snd doc) f = Some v) (store w c)), w1))"

text \<open>The collection a database call addresses.\<close>

fun call_collection :: "call \<Rightarrow> string option" where
  "call_collection (DbAdd c d) = Some c"
| "call_collection (DbUpdate c i p) = Some c"
| "call_collection (DbDelete c i) = Some c"
| "call_collection (DbGet c) = Some c"
| "call_collection (DbWhere c f v) = Some c"
| "call_collection k = None"

section \<open>Listing update and delete\<close>

definition listing_collections :: "string list" where
  "listing_collections = [''equipment'', ''materials'', ''contractors'']"

text \<open>\<open>PUT /api/listing/:collectionName/:listingId\<close>\<close>

definition update_listing :: "string \<Rightarrow> string \<Rightarrow> fields \<Rightarrow> world \<Rightarrow> response \<times> world" where
  "update_listing collectionName listingId updatedData w =
     (if collectionName \<in> set listing_collections then
        (case db_update collectionName listingId updatedData w of
           (Inl e, w') \<Rightarrow> (send 500 (Obj [(''error'', Str ''Failed to update listing.'')]), w')
         | (Inr u, w') \<Rightarrow> (send 200 (Obj [(''message'', Str ''Listing updated successfully!'')]), w'))
      else (send 400 (Obj [(''error'', Str ''Invalid collection specified.'')]), w))"

text \<open>\<open>DELETE /api/listing/:collectionName/:listingId\<close>\<close>

definition delete_listing :: "string \<Rightarrow> string \<Rightarrow> world \<Rightarrow> response \<times> world" where
  "delete_listing collectionName listingId w =
     (if collectionName \<in> set listing_collections then
        (case db_delete collectionName listingId w of
           (Inl e, w') \<Rightarrow> (send 500 (Obj [(''error'', Str ''Failed to remove listing.'')]), w')
         | (Inr u, w') \<Rightarrow> (send 200 (Obj [(''message'', Str ''Listing removed successfully!'')]), w'))
      else (send 400 (Obj [(''error'', Str ''Invalid collection specified.'')]), w))"

section \<open>Numbers\<close>

text \<open>
  Arithmetic on numbers rounds its exact result to the nearest binary64 value, ties to
  the even significand; results of magnitude \<open>2^1024\<close> and above are infinite.
\<close>

text \<open>The number of binary digits of a positive integer.\<close>

function bitlen :: "int \<Rightarrow> nat" where
  "bitlen k = (if k \<le> 0 then 0 else Suc (bitlen (k div 2)))"
  by pat_completeness auto
termination
  by (relation "measure nat") auto

declare bitlen.simps [simp del]

definition pow2 :: "int \<Rightarrow> rat" where
  "pow2 k = (if 0 \<le> k then 2 ^ nat k else 1 / 2 ^ nat (- k))"

text \<open>The exponent of a positive rational: \<open>pow2 (ilog2 a) \<le> a < pow2 (ilog2 a + 1)\<close>.\<close>

definition ilog2 :: "rat \<Rightarrow> int" where
  "ilog2 a = (if 1 \<le> a then int (bitlen \<lfloor>a\<rfloor>) - 1 else - int (bitlen (\<lceil>1 / a\<rceil> - 1)))"

definition round_half_even :: "rat \<Rightarrow> int" where
  "round_half_even x =
     (if x - of_int \<lfloor>x\<rfloor> < 1 / 2 then \<lfloor>x\<rfloor>
      else if 1 / 2 < x - of_int \<lfloor>x\<rfloor> then \<lfloor>x\<rfloor> + 1
      else if even \<lfloor>x\<rfloor> then \<lfloor>x\<rfloor> else \<lfloor>x\<rfloor> + 1)"

text \<open>
  The exponent of the last place of a binary64 value of magnitude \<open>a\<close>: 52 binary places
  below the exponent of \<open>a\<close>, and never below that of the subnormal range.
\<close>

definition ulp_exponent :: "rat \<Rightarrow> int" where
  "ulp_exponent a = max (ilog2 a) (- 1022) - 52"

definition round_magnitude :: "rat \<Rightarrow> rat" where
  "round_magnitude a =
     of_int (round_half_even (a / pow2 (ulp_exponent a))) * pow2 (ulp_exponent a)"

definition round_double :: "rat \<Rightarrow> jsnum" where
  "round_double x =
     (if x = 0 then Fin 0
      else if pow2 1024 \<le> round_magnitude \<bar>x\<bar> then (if 0 < x then PosInf else NegInf)
      else Fin (if 0 < x then round_magnitude \<bar>x\<bar> else - round_magnitude \<bar>x\<bar>))"

text \<open>A decimal literal of a JSON body is parsed to the nearest binary64 value.\<close>

definition json_number :: "rat \<Rightarrow> jsnum" where
  "json_number x = round_double x"

fun num_neg :: "jsnum \<Rightarrow> bool" where
  "num_neg NegInf = True"
| "num_neg (Fin a) = (a < 0)"
| "num_neg n = False"

text \<open>\<open>x * y\<close>\<close>

definition num_mult :: "jsnum \<Rightarrow> jsnum \<Rightarrow> jsnum" where
  "num_mult x y =
     (case (x, y) of
        (Fin a, Fin b) \<Rightarrow> round_double (a * b)
      | _ \<Rightarrow> if x = NaN \<or> y = NaN \<or> x = Fin 0 \<or> y = Fin 0 then NaN
             else if num_neg x = num_neg y then PosInf else NegInf)"

text \<open>\<open>x < y\<close>: false whenever an operand is NaN.\<close>

fun num_lt :: "jsnum \<Rightarrow> jsnum \<Rightarrow> bool" where
  "num_lt NaN y = False"
| "num_lt x NaN = False"
| "num_lt x NegInf = False"
| "num_lt PosInf y = False"
| "num_lt NegInf y = True"
| "num_lt x PosInf = True"
| "num_lt (Fin a) (Fin b) = (a < b)"

text \<open>\<open>Math.round\<close>: the nearest integer, a tie going up.\<close>

fun Math_round :: "jsnum \<Rightarrow> jsnum" where
  "Math_round (Fin a) = Fin (of_int \<lfloor>a + 1 / 2\<rfloor>)"
| "Math_round n = n"

text \<open>The decimal digits of a natural number, as a template literal prints it.\<close>

fun digits :: "nat \<Rightarrow> string" where
  "digits n = (if n < 10 then [''0123456789'' ! n]
               else digits (n div 10) @ [''0123456789'' ! (n mod 10)])"

declare digits.simps [simp del]

section \<open>Conversions the language defines\<close>

text \<open>
  The string algorithms of ECMAScript and the Date object are parameters of the model:
  parsing a string as a number, printing a number, printing an array or an object (which
  throws when the value shadows \<open>toString\<close>), \<open>toLocaleString\<close>, the time value of
  \<open>new Date(v)\<close> (\<open>None\<close> for an invalid date) and \<open>toISOString\<close>.
\<close>

record js =
  StringToNumber :: "string \<Rightarrow> jsnum"
  NumberToString :: "jsnum \<Rightarrow> string"
  ObjectToString :: "jsval \<Rightarrow> exn + string"
  LocaleString :: "jsval \<Rightarrow> exn + string"
  DateValue :: "jsval \<Rightarrow> int option"
  toISOString :: "nat \<Rightarrow> string"

text \<open>String conversion, as a template literal \<open>${v}\<close> applies it.\<close>

fun ToString :: "js \<Rightarrow> jsval \<Rightarrow> exn + string" where
  "ToString J Undefined = Inr ''undefined''"
| "ToString J Null = Inr ''null''"
| "ToString J (Bool b) = Inr (if b then ''true'' else ''false'')"
| "ToString J (Num n) = Inr (NumberToString J n)"
| "ToString J (Str s) = Inr s"
| "ToString J v = ObjectToString J v"

text \<open>\<open>Number(v)\<close>, also the conversion \<open>v * 100\<close> applies to \<open>v\<close>.\<close>

fun Number :: "js \<Rightarrow> jsval \<Rightarrow> exn + jsnum" where
  "Number J Undefined = Inr NaN"
| "Number J Null = Inr (Fin 0)"
| "Number J (Bool b) = Inr (Fin (if b then 1 else 0))"
| "Number J (Num n) = Inr n"
| "Number J (Str s) = Inr (StringToNumber J s)"
| "Number J v = (case ObjectToString J v of Inl e \<Rightarrow> Inl e | Inr s \<Rightarrow> Inr (StringToNumber J s))"

text \<open>
  The value of \<open>v.k\<close> where \<open>v\<close> is known to be truthy, so that the access cannot throw.
\<close>

definition field_of :: "jsval \<Rightarrow> string \<Rightarrow> jsval" where
  "field_of v k = (case get_prop v k of Inl e \<Rightarrow> Undefined | Inr x \<Rightarrow> x)"

text \<open>Sequencing of steps that may throw: the first exception ends the block.\<close>

definition and_then :: "exn + 'a \<Rightarrow> ('a \<Rightarrow> exn + 'b) \<Rightarrow> exn + 'b" where
  "and_then r f = (case r of Inl e \<Rightarrow> Inl e | Inr x \<Rightarrow> f x)"

section \<open>Payment orders\<close>

text \<open>\<open>razorpay.orders.create(options)\<close>: resolves with an order or rejects with an error.\<close>

definition orders_create_call :: "jsval \<Rightarrow> world \<Rightarrow> (jsval + jsval) \<times> world" where
  "orders_create_call options w = (orders_create w options, traced (OrdersCreate options) w)"

definition order_options :: "jsnum \<Rightarrow> world \<Rightarrow> jsval" where
  "order_options amount w =
     Obj [(''amount'', Num amount), (''currency'', Str ''INR''),
          (''receipt'', Str (''receipt_order_'' @ digits (clock w)))]"

text \<open>
  \<open>res.status(s).send(b)\<close> where \<open>s\<close> and \<open>b\<close> are taken from the error of the payment
  service. With a body that is an object, an array or a string, an integer status from 100
  to 999 is sent as it is, and any other 32-bit integer status is refused: the call throws.
  What becomes of any other status or body depends on the version of Express and is read
  from the world.
\<close>

definition plain_body :: "jsval \<Rightarrow> bool" where
  "plain_body b = (case b of Obj kvs \<Rightarrow> True | Arr xs \<Rightarrow> True | Str s \<Rightarrow> True | _ \<Rightarrow> False)"

definition status_send :: "world \<Rightarrow> jsval \<Rightarrow> jsval \<Rightarrow> exn + response" where
  "status_send w s b =
     (case s of
        Num (Fin x) \<Rightarrow>
          if plain_body b \<and> of_int \<lfloor>x\<rfloor> = x \<and> - 2147483648 \<le> x \<and> x < 2147483648
          then (if 100 \<le> x \<and> x \<le> 999 then Inr \<lparr>status = s, body = b\<rparr> else Inl RangeError)
          else other_response w s b
      | _ \<Rightarrow> other_response w s b)"

text \<open>\<open>POST /api/create-order\<close> of \<open>src/index.js\<close>\<close>

definition create_order_index :: "js \<Rightarrow> fields \<Rightarrow> world \<Rightarrow> response \<times> world" where
  "create_order_index J req w =
     (let amount = field req ''amount''
      in case Number J amount of
           Inl e \<Rightarrow> (send 500 (Str ''Something went wrong''), w)
         | Inr n \<Rightarrow>
             (case orders_create_call (order_options (num_mult n (Fin 100)) w) w of
                (Inl error, w') \<Rightarrow> (send 500 (Str ''Something went wrong''), w')
              | (Inr order, w') \<Rightarrow>
                  if \<not> truthy order then (send 500 (Str ''Error creating order''), w')
                  else (send 200 order, w')))"

text \<open>
  \<open>POST /api/create-order\<close> of \<open>src/unnamed/part_000\<close>. The inner \<open>catch\<close> lies in
  the outer \<open>try\<close>: what it throws is answered by the outer \<open>catch\<close>.
\<close>

definition create_order_part_000 :: "fields \<Rightarrow> world \<Rightarrow> response \<times> world" where
  "create_order_part_000 req w =
     (case field req ''amount'' of
        Num amount \<Rightarrow>
          if num_lt amount (Fin 1) \<or> amount = NaN
          then (send 400 (Obj [(''error'', Str ''Invalid amount for payment.'')]), w)
          else
            (let amountInPaise = Math_round (num_mult amount (Fin 100))
             in case orders_create_call (order_options amountInPaise w) w of
                  (Inr order, w') \<Rightarrow>
                    if \<not> truthy order then (send 500 (Str ''Error creating order''), w')
                    else (send 200 order, w')
                | (Inl razorpayError, w') \<Rightarrow>
                    (case get_prop razorpayError ''statusCode'' of
                       Inl e \<Rightarrow> (send 500 (Str ''An unexpected error occurred on the server.''), w')
                     | Inr statusCode \<Rightarrow>
                         (case get_prop razorpayError ''error'' of
                            Inl e \<Rightarrow> (send 500 (Str ''An unexpected error occurred on the server.''), w')
                          | Inr error \<Rightarrow>
                              (case status_send w'
                                      (if truthy statusCode then statusCode else Num (Fin 500)) error of
                                 Inl e \<Rightarrow>
                                   (send 500 (Str ''An unexpected error occurred on the server.''), w')
                               | Inr r \<Rightarrow> (r, w')))))
      | _ \<Rightarrow> (send 400 (Obj [(''error'', Str ''Invalid amount for payment.'')]), w))"

text \<open>\<open>POST /api/create-order\<close> of \<open>src/unnamed/part_001\<close>\<close>

definition create_order_part_001 :: "fields \<Rightarrow> world \<Rightarrow> response \<times> world" where
  "create_order_part_001 req w =
     (case field req ''amount'' of
        Num amount \<Rightarrow>
          if num_lt amount (Fin 1) \<or> amount = NaN
          then (send 400 (Obj [(''error'', Str ''Invalid amount for payment.'')]), w)
          else
            (case orders_create_call (order_options (Math_round (num_mult amount (Fin 100))) w) w of
               (Inr order, w') \<Rightarrow>
                 if \<not> truthy order then (send 500 (Str ''Error creating order''), w')
                 else (send 200 order, w')
             | (Inl error, w') \<Rightarrow> (send 500 (Str ''Something went wrong with Razorpay''), w'))
      | _ \<Rightarrow> (send 400 (Obj [(''error'', Str ''Invalid amount for payment.'')]), w))"

section \<open>Bookings\<close>

text \<open>The guard of \<open>POST /api/create-booking\<close>, the same in every variant of the file.\<close>

definition booking_info_missing :: "fields \<Rightarrow> bool" where
  "booking_info_missing req =
     (\<not> truthy (field req ''userId'') \<or> \<not> truthy (field req ''cartItems'')
      \<or> \<not> truthy (field_of (field req ''cartItems'') ''length'')
      \<or> \<not> truthy (field req ''siteLocation''))"

definition booking_doc :: "js \<Rightarrow> fields \<Rightarrow> world \<Rightarrow> fields" where
  "booking_doc J req w =
     [(''clientId'', field req ''userId''),
      (''items'', field req ''cartItems''),
      (''totalAmount'', field req ''totalPrice''),
      (''status'', Str ''Confirmed''),
      (''bookingDate'', Str (toISOString J (clock w))),
      (''paymentDetails'',
         if truthy (field req ''paymentDetails'') then field req ''paymentDetails'' else Obj []),
      (''siteLocation'', field req ''siteLocation'')]"

text \<open>
  The confirmation email. The message is the fixed HTML template of the handler;
  \<open>mail_html\<close> lists the values interpolated into it, in the order of the template.
\<close>

definition item_html :: "js \<Rightarrow> jsval \<Rightarrow> exn + string" where
  "item_html J item =
     and_then (get_prop item ''name'') (\<lambda>name.
     and_then (ToString J name) (\<lambda>n.
     and_then (get_prop item ''quantity'') (\<lambda>quantity.
     and_then (ToString J quantity) (\<lambda>q.
       Inr (''<li>'' @ n @ '' (Quantity: '' @ q @ '')</li>'')))))"

fun items_html :: "js \<Rightarrow> jsval list \<Rightarrow> exn + string" where
  "items_html J [] = Inr []"
| "items_html J (item # items) =
     and_then (item_html J item) (\<lambda>h. and_then (items_html J items) (\<lambda>r. Inr (h @ r)))"

text \<open>\<open>cartItems.map(...).join('')\<close>: only an array has \<open>map\<close>.\<close>

definition itemsList :: "js \<Rightarrow> jsval \<Rightarrow> exn + string" where
  "itemsList J cartItems = (case cartItems of Arr items \<Rightarrow> items_html J items | _ \<Rightarrow> Inl TypeError)"

text \<open>\<open>totalPrice.toLocaleString()\<close>\<close>

definition total_text :: "js \<Rightarrow> jsval \<Rightarrow> exn + string" where
  "total_text J totalPrice =
     (case totalPrice of Undefined \<Rightarrow> Inl TypeError | Null \<Rightarrow> Inl TypeError
      | _ \<Rightarrow> LocaleString J totalPrice)"

definition site_text :: "js \<Rightarrow> jsval \<Rightarrow> string \<Rightarrow> exn + string" where
  "site_text J siteLocation k = and_then (get_prop siteLocation k) (ToString J)"

definition mailOptions :: "js \<Rightarrow> fields \<Rightarrow> string \<Rightarrow> jsval \<Rightarrow> exn + mail" where
  "mailOptions J req bookingId user =
     and_then (get_prop user ''email'') (\<lambda>userEmail.
     and_then (itemsList J (field req ''cartItems'')) (\<lambda>items.
     and_then (total_text J (field req ''totalPrice'')) (\<lambda>total.
     and_then (site_text J (field req ''siteLocation'') ''address'') (\<lambda>address.
     and_then (site_text J (field req ''siteLocation'') ''area'') (\<lambda>area.
     and_then (site_text J (field req ''siteLocation'') ''city'') (\<lambda>city.
     and_then (site_text J (field req ''siteLocation'') ''pincode'') (\<lambda>pincode.
     and_then (site_text J (field req ''siteLocation'') ''contactNo'') (\<lambda>contactNo.
       Inr \<lparr>mail_to = userEmail,
            mail_subject = ''Your BuildConnect Booking Confirmation (#'' @ take 8 bookingId @ '')'',
            mail_html = [items, total, address, area, city, pincode, contactNo]\<rparr>))))))))"

text \<open>\<open>admin.auth().getUser(uid)\<close> and \<open>transporter.sendMail(m)\<close>\<close>

definition getUser_call :: "jsval \<Rightarrow> world \<Rightarrow> (exn + jsval) \<times> world" where
  "getUser_call uid w = (getUser w uid, traced (GetUser uid) w)"

definition sendMail_call :: "mail \<Rightarrow> world \<Rightarrow> (exn + unit) \<times> world" where
  "sendMail_call m w = (if sendMail_fails w m then Inl Rejected else Inr (), traced (SendMail m) w)"

text \<open>
  The inner \<open>try\<close> block of \<open>src/index.js\<close>: whatever is thrown in it is caught and
  logged, and the handler goes on.
\<close>

definition email_process :: "js \<Rightarrow> fields \<Rightarrow> string \<Rightarrow> world \<Rightarrow> world" where
  "email_process J req bookingId w =
     (case getUser_call (field req ''userId'') w of
        (Inl e, w1) \<Rightarrow> w1
      | (Inr user, w1) \<Rightarrow>
          (case mailOptions J req bookingId user of
             Inl e \<Rightarrow> w1
           | Inr m \<Rightarrow> (case sendMail_call m w1 of (Inl e, w2) \<Rightarrow> w2 | (Inr u, w2) \<Rightarrow> w2)))"

text \<open>\<open>POST /api/create-booking\<close> of \<open>src/index.js\<close>\<close>

definition create_booking_index :: "js \<Rightarrow> fields \<Rightarrow> world \<Rightarrow> response \<times> world" where
  "create_booking_index J req w =
     (if booking_info_missing req
      then (send 400 (Obj [(''error'', Str ''Missing booking information.'')]), w)
      else case db_add ''bookings'' (booking_doc J req w) w of
             (Inl e, w1) \<Rightarrow> (send 500 (Obj [(''error'', Str ''Failed to create booking.'')]), w1)
           | (Inr bookingId, w1) \<Rightarrow>
               (send 201 (Obj [(''message'', Str ''Booking created successfully!''),
                               (''bookingId'', Str bookingId)]),
                email_process J req bookingId w1))"

text \<open>\<open>POST /api/create-booking\<close> of \<open>src/unnamed/part_001\<close>, which sends no email\<close>

definition create_booking_part_001 :: "js \<Rightarrow> fields \<Rightarrow> world \<Rightarrow> response \<times> world" where
  "create_booking_part_001 J req w =
     (if booking_info_missing req
      then (send 400 (Obj [(''error'', Str ''Missing booking information.'')]), w)
      else case db_add ''bookings'' (booking_doc J req w) w of
             (Inl e, w1) \<Rightarrow> (send 500 (Obj [(''error'', Str ''Failed to create booking.'')]), w1)
           | (Inr bookingId, w1) \<Rightarrow>
               (send 201 (Obj [(''message'', Str ''Booking created successfully!''),
                               (''bookingId'', Str bookingId)]), w1))"

text \<open>\<open>doc => ({ id: doc.id, ...doc.data() })\<close>\<close>

definition doc_view :: "string \<times> fields \<Rightarrow> jsval" where
  "doc_view doc = Obj (spread [(''id'', Str (fst doc))] (snd doc))"

text \<open>
  The comparator \<open>(a, b) => new Date(b.bookingDate) - new Date(a.bookingDate)\<close>. A time
  value is an integer or NaN; the difference of two time values has the sign of their exact
  difference, and \<open>sort\<close> reads a NaN result as 0.
\<close>

definition bookingDate :: "js \<Rightarrow> jsval \<Rightarrow> int option" where
  "bookingDate J a = DateValue J (field_of a ''bookingDate'')"

definition compare_bookings :: "js \<Rightarrow> jsval \<Rightarrow> jsval \<Rightarrow> int" where
  "compare_bookings J a b =
     (case (bookingDate J b, bookingDate J a) of (Some tb, Some ta) \<Rightarrow> tb - ta | _ \<Rightarrow> 0)"

text \<open>A booking that is at least as new as another; both dates must be valid.\<close>

definition not_older :: "js \<Rightarrow> jsval \<Rightarrow> jsval \<Rightarrow> bool" where
  "not_older J a b =
     (case (bookingDate J a, bookingDate J b) of (Some ta, Some tb) \<Rightarrow> tb \<le> ta | _ \<Rightarrow> False)"

text \<open>
  \<open>Array.prototype.sort\<close> is stable: an element moves behind another only when the
  comparator puts it after.
\<close>

fun sort_insert :: "('a \<Rightarrow> 'a \<Rightarrow> int) \<Rightarrow> 'a \<Rightarrow> 'a list \<Rightarrow> 'a list" where
  "sort_insert cmp a [] = [a]"
| "sort_insert cmp a (b # bs) = (if cmp a b \<le> 0 then a # b # bs else b # sort_insert cmp a bs)"

definition js_sort :: "('a \<Rightarrow> 'a \<Rightarrow> int) \<Rightarrow> 'a list \<Rightarrow> 'a list" where
  "js_sort cmp xs = foldr (sort_insert cmp) xs []"

text \<open>\<open>GET /api/my-bookings/:userId\<close>\<close>

definition my_bookings :: "js \<Rightarrow> string \<Rightarrow> world \<Rightarrow> response \<times> world" where
  "my_bookings J userId w =
     (case db_where ''bookings'' ''clientId'' (Str userId) w of
        (Inl e, w') \<Rightarrow> (send 500 (Obj [(''error'', Str ''Failed to fetch bookings.'')]), w')
      | (Inr docs, w') \<Rightarrow>
          if docs = [] then (send 200 (Arr []), w')
          else (send 200 (Arr (js_sort (compare_bookings J) (map doc_view docs))), w'))"

text \<open>\<open>PUT /api/bookings/:bookingId/cancel\<close>\<close>

definition cancel_booking :: "string \<Rightarrow> world \<Rightarrow> response \<times> world" where
  "cancel_booking bookingId w =
     (case db_update ''bookings'' bookingId [(''status'', Str ''Cancelled'')] w of
        (Inl e, w') \<Rightarrow> (send 500 (Obj [(''error'', Str ''Failed to cancel booking.'')]), w')
      | (Inr u, w') \<Rightarrow> (send 200 (Obj [(''message'', Str ''Booking cancelled successfully!'')]), w'))"

section \<open>Listing creation and the public lists\<close>

text \<open>
  The tail of \<open>POST /api/add-listing\<close>: \<open>Number(price)\<close> is evaluated while the
  document is built, then the document is added; an exception in either step is answered
  with 500.
\<close>

definition save_listing :: "js \<Rightarrow> jsval \<Rightarrow> string \<Rightarrow> (jsnum \<Rightarrow> fields) \<Rightarrow> world \<Rightarrow> response \<times> world" where
  "save_listing J price collectionName dataToSave w =
     (case Number J price of
        Inl e \<Rightarrow> (send 500 (Obj [(''error'', Str ''Failed to create listing.'')]), w)
      | Inr p \<Rightarrow>
          (case db_add collectionName (dataToSave p) w of
             (Inl e, w') \<Rightarrow> (send 500 (Obj [(''error'', Str ''Failed to create listing.'')]), w')
           | (Inr i, w') \<Rightarrow>
               (send 201 (Obj [(''message'', Str ''Listing created successfully!''),
                               (''id'', Str i)]), w')))"

definition listing_fields_missing :: "fields \<Rightarrow> bool" where
  "listing_fields_missing req =
     (\<not> truthy (field req ''listingType'') \<or> \<not> truthy (field req ''name'')
      \<or> \<not> truthy (field req ''price'') \<or> \<not> truthy (field req ''merchantId''))"

definition material_data :: "fields \<Rightarrow> jsnum \<Rightarrow> fields" where
  "material_data req p =
     [(''name'', field req ''name''), (''specs'', field req ''description''),
      (''pricePerUnit'', Num p), (''imageUrl'', field req ''imageUrl''),
      (''merchantId'', field req ''merchantId''), (''unit'', field req ''unit''),
      (''stockQuantity'', Num (Fin 100))]"

definition contractor_data :: "fields \<Rightarrow> jsnum \<Rightarrow> fields" where
  "contractor_data req p =
     [(''name'', field req ''name''), (''bio'', field req ''description''),
      (''rate'', Num p), (''profileImageUrl'', field req ''imageUrl''),
      (''location'', field req ''location''), (''merchantId'', field req ''merchantId''),
      (''rateType'', field req ''rateType''), (''specialization'', field req ''specialization'')]"

text \<open>\<open>POST /api/add-listing\<close> of \<open>src/index.js\<close>\<close>

definition add_listing_index :: "js \<Rightarrow> fields \<Rightarrow> world \<Rightarrow> response \<times> world" where
  "add_listing_index J req w =
     (if listing_fields_missing req
      then (send 400 (Obj [(''error'', Str ''Missing required fields.'')]), w)
      else if field req ''listingType'' = Str ''Equipment'' then
        save_listing J (field req ''price'') ''equipment''
          (\<lambda>p. [(''name'', field req ''name''), (''description'', field req ''description''),
                 (''dailyRentalPrice'', Num p), (''imageUrl'', field req ''imageUrl''),
                 (''location'', field req ''location''), (''merchantId'', field req ''merchantId''),
                 (''category'', Str ''General''), (''availabilityStatus'', Str ''Available'')]) w
      else if field req ''listingType'' = Str ''Material'' then
        save_listing J (field req ''price'') ''materials'' (material_data req) w
      else if field req ''listingType'' = Str ''Contractor'' then
        save_listing J (field req ''price'') ''contractors'' (contractor_data req) w
      else (send 400 (Obj [(''error'', Str ''Invalid listing type.'')]), w))"

text \<open>
  \<open>POST /api/add-listing\<close> of \<open>src/unnamed/part_001\<close>: the equipment document has
  \<open>rate\<close> and \<open>rateType\<close> in place of \<open>dailyRentalPrice\<close>.
\<close>

definition add_listing_part_001 :: "js \<Rightarrow> fields \<Rightarrow> world \<Rightarrow> response \<times> world" where
  "add_listing_part_001 J req w =
     (if listing_fields_missing req
      then (send 400 (Obj [(''error'', Str ''Missing required fields.'')]), w)
      else if field req ''listingType'' = Str ''Equipment'' then
        save_listing J (field req ''price'') ''equipment''
          (\<lambda>p. [(''name'', field req ''name''), (''description'', field req ''description''),
                 (''rate'', Num p), (''rateType'', field req ''rateType''),
                 (''imageUrl'', field req ''imageUrl''),
                 (''location'', field req ''location''), (''merchantId'', field req ''merchantId''),
                 (''category'', Str ''General''), (''availabilityStatus'', Str ''Available'')]) w
      else if field req ''listingType'' = Str ''Material'' then
        save_listing J (field req ''price'') ''materials'' (material_data req) w
      else if field req ''listingType'' = Str ''Contractor'' then
        save_listing J (field req ''price'') ''contractors'' (contractor_data req) w
      else (send 400 (Obj [(''error'', Str ''Invalid listing type.'')]), w))"

text \<open>\<open>GET /api/materials\<close>\<close>

definition get_materials :: "world \<Rightarrow> response \<times> world" where
  "get_materials w =
     (case db_get ''materials'' w of
        (Inl e, w') \<Rightarrow> (send 500 (Str ''Something went wrong''), w')
      | (Inr docs, w') \<Rightarrow> (send 200 (Arr (map doc_view docs)), w'))"

section \<open>Concrete inputs\<close>

text \<open>A small world and a few requests, on which the theorems below are instantiated.\<close>

definition example_js :: js where
  "example_js =
     \<lparr>StringToNumber = (\<lambda>s. if s = ''250'' then Fin 250 else NaN),
      NumberToString = (\<lambda>n. if n = Fin 2 then ''2'' else ''1500''),
      ObjectToString = (\<lambda>v. Inr ''[object Object]''),
      LocaleString = (\<lambda>v. Inr ''1,500''),
      DateValue = (\<lambda>v. if v = Str ''2024-01-01T00:00:00.000Z'' then Some 1704067200000
                         else if v = Str ''2024-03-01T00:00:00.000Z'' then Some 1709251200000
                         else None),
      toISOString = (\<lambda>t. ''2024-03-01T00:00:00.000Z'')\<rparr>"

definition example_booking :: "string \<Rightarrow> string \<Rightarrow> string \<Rightarrow> fields" where
  "example_booking client state date =
     [(''clientId'', Str client), (''items'', Arr [Obj [(''name'', Str ''Cement''), (''quantity'', Num (Fin 2))]]),
      (''totalAmount'', Num (Fin 1500)), (''status'', Str state), (''bookingDate'', Str date),
      (''paymentDetails'', Obj []), (''siteLocation'', Obj [(''city'', Str ''Pune'')])]"

definition example_world :: world where
  "example_world =
     \<lparr>store = (\<lambda>c. if c = ''bookings'' then
                       [(''b1'', example_booking ''u1'' ''Confirmed'' ''2024-01-01T00:00:00.000Z''),
                        (''b2'', example_booking ''u2'' ''Confirmed'' ''2024-01-01T00:00:00.000Z''),
                        (''b3'', example_booking ''u1'' ''Cancelled'' ''2024-03-01T00:00:00.000Z'')]
                     else if c = ''equipment'' then [(''e1'', [(''name'', Str ''Crane'')])]
                     else []),
      auto_ids = (\<lambda>n. ''auto'' @ digits n),
      next_auto = 0,
      db_rejects = (\<lambda>k. False),
      getUser = (\<lambda>uid. if uid = Str ''u1'' then Inr (Obj [(''email'', Str ''u1@example.com'')])
                         else Inl Rejected),
      sendMail_fails = (\<lambda>m. True),
      orders_create = (\<lambda>options. Inl (Obj [(''statusCode'', Num (Fin 400)),
                                              (''error'', Obj [(''code'', Str ''BAD_REQUEST_ERROR'')])])),
      clock = 1709251200000,
      calls = [],
      other_response = (\<lambda>s b. Inl TypeError)\<rparr>"

definition example_request :: "string \<Rightarrow> fields" where
  "example_request uid =
     [(''userId'', Str uid),
      (''cartItems'', Arr [Obj [(''name'', Str ''Cement''), (''quantity'', Num (Fin 2))]]),
      (''totalPrice'', Num (Fin 1500)),
      (''siteLocation'', Obj [(''address'', Str ''12 MG Road''), (''area'', Str ''Camp''),
                              (''city'', Str ''Pune''), (''pincode'', Str ''411001''),
                              (''contactNo'', Str ''9800000000'')])]"

definition free_listing :: fields where
  "free_listing = [(''listingType'', Str ''Material''), (''name'', Str ''Sand''),
     (''price'', Num (Fin 0)), (''merchantId'', Str ''m1'')]"

definition material_request :: fields where
  "material_request =
     [(''listingType'', Str ''Material''), (''name'', Str ''Sand''),
      (''description'', Str ''River sand''), (''price'', Str ''250''),
      (''imageUrl'', Str ''sand.png''), (''merchantId'', Str ''m1''), (''unit'', Str ''ton'')]"

text \<open>A world whose payment service accepts every order.\<close>

definition paying_world :: world where
  "paying_world =
     example_world\<lparr>orders_create :=
       (\<lambda>options. Inr (Obj [(''id'', Str ''order_1''), (''status'', Str ''created'')]))\<rparr>"

section \<open>Properties of the listing routes\<close>

lemma update_listing_calls:
  "\<exists>new. calls (snd (update_listing cn i d w)) = calls w @ new
     \<and> (\<forall>k \<in> set new. \<exists>c \<in> set listing_collections. call_collection k = Some c)"
  by (auto simp: update_listing_def db_update_def traced_def Let_def)

lemma delete_listing_calls:
  "\<exists>new. calls (snd (delete_listing cn i w)) = calls w @ new
     \<and> (\<forall>k \<in> set new. \<exists>c \<in> set listing_collections. call_collection k = Some c)"
  by (auto simp: delete_listing_def db_delete_def traced_def Let_def)

lemma update_listing_store:
  "c \<notin> set listing_collections \<Longrightarrow> store (snd (update_listing cn i d w)) c = store w c"
  by (auto simp: update_listing_def db_update_def traced_def Let_def)

lemma delete_listing_store:
  "c \<notin> set listing_collections \<Longrightarrow> store (snd (delete_listing cn i w)) c = store w c"
  by (auto simp: delete_listing_def db_delete_def traced_def Let_def)

text \<open>
  C5. A listing update or delete whose \<open>collectionName\<close> is not one of equipment,
  materials and contractors is answered with 400 and the world is unchanged, so no
  database call was made. For any input, the two routes leave every other collection as
  it was, and every call they make addresses one of the three collections.
\<close>

theorem listing_routes_restricted:
  "(collectionName \<notin> {''equipment'', ''materials'', ''contractors''} \<longrightarrow>
      update_listing collectionName listingId updatedData w =
        (send 400 (Obj [(''error'', Str ''Invalid collection specified.'')]), w)
      \<and> delete_listing collectionName listingId w =
        (send 400 (Obj [(''error'', Str ''Invalid collection specified.'')]), w))
   \<and> (\<forall>c. c \<notin> {''equipment'', ''materials'', ''contractors''} \<longrightarrow>
        store (snd (update_listing collectionName listingId updatedData w)) c = store w c
        \<and> store (snd (delete_listing collectionName listingId w)) c = store w c)
   \<and> (\<exists>new. calls (snd (update_listing collectionName listingId updatedData w)) = calls w @ new
        \<and> (\<forall>k \<in> set new. \<exists>c \<in> {''equipment'', ''materials'', ''contractors''}.
              call_collection k = Some c))
   \<and> (\<exists>new. calls (snd (delete_listing collectionName listingId w)) = calls w @ new
        \<and> (\<forall>k \<in> set new. \<exists>c \<in> {''equipment'', ''materials'', ''contractors''}.
              call_collection k = Some c))"
proof -
  have S: "set listing_collections = {''equipment'', ''materials'', ''contractors''}"
    by (simp add: listing_collections_def)
  have A: "collectionName \<notin> {''equipment'', ''materials'', ''contractors''} \<longrightarrow>
      update_listing collectionName listingId updatedData w =
        (send 400 (Obj [(''error'', Str ''Invalid collection specified.'')]), w)
      \<and> delete_listing collectionName listingId w =
        (send 400 (Obj [(''error'', Str ''Invalid collection specified.'')]), w)"
    unfolding S [symmetric] by (simp add: update_listing_def delete_listing_def)
  have B: "\<forall>c. c \<notin> {''equipment'', ''materials'', ''contractors''} \<longrightarrow>
        store (snd (update_listing collectionName listingId updatedData w)) c = store w c
        \<and> store (snd (delete_listing collectionName listingId w)) c = store w c"
    unfolding S [symmetric] by (simp add: update_listing_store delete_listing_store)
  have C: "\<exists>new. calls (snd (update_listing collectionName listingId updatedData w)) = calls w @ new
        \<and> (\<forall>k \<in> set new. \<exists>c \<in> {''equipment'', ''materials'', ''contractors''}.
              call_collection k = Some c)"
    unfolding S [symmetric] by (rule update_listing_calls)
  have D: "\<exists>new. calls (snd (delete_listing collectionName listingId w)) = calls w @ new
        \<and> (\<forall>k \<in> set new. \<exists>c \<in> {''equipment'', ''materials'', ''contractors''}.
              call_collection k = Some c)"
    unfolding S [symmetric] by (rule delete_listing_calls)
  show ?thesis
    by (rule conjI [OF A conjI [OF B conjI [OF C D]]])
qed

theorem listing_routes_restricted_witness:
  "''users'' \<notin> {''equipment'', ''materials'', ''contractors''}
   \<and> update_listing ''users'' ''u1'' [(''role'', Str ''admin'')] example_world =
        (send 400 (Obj [(''error'', Str ''Invalid collection specified.'')]), example_world)
   \<and> delete_listing ''users'' ''u1'' example_world =
        (send 400 (Obj [(''error'', Str ''Invalid collection specified.'')]), example_world)
   \<and> calls (snd (update_listing ''equipment'' ''e1'' [(''name'', Str ''Tower crane'')] example_world)) =
        calls example_world @ [DbUpdate ''equipment'' ''e1'' [(''name'', Str ''Tower crane'')]]
   \<and> store (snd (update_listing ''equipment'' ''e1'' [(''name'', Str ''Tower crane'')] example_world))
        ''users'' = store example_world ''users''"
proof -
  have N: "''users'' \<notin> {''equipment'', ''materials'', ''contractors''}"
    by simp
  have C: "calls (snd (update_listing ''equipment'' ''e1'' [(''name'', Str ''Tower crane'')] example_world)) =
        calls example_world @ [DbUpdate ''equipment'' ''e1'' [(''name'', Str ''Tower crane'')]]"
    by (simp add: update_listing_def listing_collections_def db_update_def traced_def
        example_world_def Let_def)
  note T1 = listing_routes_restricted [of "''users''" "''u1''" "[(''role'', Str ''admin'')]" example_world]
  note T2 = listing_routes_restricted [of "''equipment''" "''e1''" "[(''name'', Str ''Tower crane'')]" example_world]
  have U: "update_listing ''users'' ''u1'' [(''role'', Str ''admin'')] example_world =
        (send 400 (Obj [(''error'', Str ''Invalid collection specified.'')]), example_world)
   \<and> delete_listing ''users'' ''u1'' example_world =
        (send 400 (Obj [(''error'', Str ''Invalid collection specified.'')]), example_world)"
    using T1 [THEN conjunct1] N by (rule mp)
  have V: "store (snd (update_listing ''equipment'' ''e1'' [(''name'', Str ''Tower crane'')] example_world))
        ''users'' = store example_world ''users''"
    using T2 [THEN conjunct2, THEN conjunct1, THEN spec, of "''users''"] N by (rule mp [THEN conjunct1])
  show ?thesis
    using N U C V by (simp only: simp_thms)
qed

section \<open>Properties of the validation guards\<close>

lemma falsy_iff:
  "\<not> truthy v \<longleftrightarrow> v = Undefined \<or> v = Null \<or> v = Bool False \<or> v = Num NaN \<or> v = Num (Fin 0) \<or> v = Str []"
  by (cases v rule: truthy.cases) auto

lemma add_listing_guard:
  "listing_fields_missing req \<Longrightarrow>
     add_listing_index J req w = (send 400 (Obj [(''error'', Str ''Missing required fields.'')]), w)
     \<and> add_listing_part_001 J req w = (send 400 (Obj [(''error'', Str ''Missing required fields.'')]), w)"
  by (simp add: add_listing_index_def add_listing_part_001_def)

text \<open>
  C10. The add-listing operation answers 400, without a database call (the world is
  unchanged), whenever \<open>listingType\<close>, \<open>name\<close>, \<open>price\<close> or \<open>merchantId\<close> is
  falsy and not only when it is absent: a request whose \<open>price\<close> is present and 0, or
  whose \<open>name\<close> is present and the empty string, is rejected as missing a required field.
\<close>

theorem add_listing_rejects_falsy:
  "(\<not> truthy (field req ''listingType'') \<or> \<not> truthy (field req ''name'')
      \<or> \<not> truthy (field req ''price'') \<or> \<not> truthy (field req ''merchantId'') \<longrightarrow>
      add_listing_index J req w = (send 400 (Obj [(''error'', Str ''Missing required fields.'')]), w)
      \<and> add_listing_part_001 J req w = (send 400 (Obj [(''error'', Str ''Missing required fields.'')]), w))
   \<and> (map_of req ''price'' = Some (Num (Fin 0)) \<or> map_of req ''name'' = Some (Str []) \<longrightarrow>
      add_listing_index J req w = (send 400 (Obj [(''error'', Str ''Missing required fields.'')]), w)
      \<and> add_listing_part_001 J req w = (send 400 (Obj [(''error'', Str ''Missing required fields.'')]), w))"
proof -
  have G: "listing_fields_missing req \<longrightarrow>
      add_listing_index J req w = (send 400 (Obj [(''error'', Str ''Missing required fields.'')]), w)
      \<and> add_listing_part_001 J req w = (send 400 (Obj [(''error'', Str ''Missing required fields.'')]), w)"
    using add_listing_guard [of req J w] by (rule impI)
  have A: "\<not> truthy (field req ''listingType'') \<or> \<not> truthy (field req ''name'')
      \<or> \<not> truthy (field req ''price'') \<or> \<not> truthy (field req ''merchantId'') \<longrightarrow>
      add_listing_index J req w = (send 400 (Obj [(''error'', Str ''Missing required fields.'')]), w)
      \<and> add_listing_part_001 J req w = (send 400 (Obj [(''error'', Str ''Missing required fields.'')]), w)"
    using G unfolding listing_fields_missing_def .
  have F: "map_of req ''price'' = Some (Num (Fin 0)) \<or> map_of req ''name'' = Some (Str []) \<Longrightarrow>
      listing_fields_missing req"
    by (auto simp: listing_fields_missing_def field_def)
  have B: "map_of req ''price'' = Some (Num (Fin 0)) \<or> map_of req ''name'' = Some (Str []) \<longrightarrow>
      add_listing_index J req w = (send 400 (Obj [(''error'', Str ''Missing required fields.'')]), w)
      \<and> add_listing_part_001 J req w = (send 400 (Obj [(''error'', Str ''Missing required fields.'')]), w)"
  proof
    assume H: "map_of req ''price'' = Some (Num (Fin 0)) \<or> map_of req ''name'' = Some (Str [])"
    from G F [OF H]
    show "add_listing_index J req w = (send 400 (Obj [(''error'', Str ''Missing required fields.'')]), w)
      \<and> add_listing_part_001 J req w = (send 400 (Obj [(''error'', Str ''Missing required fields.'')]), w)"
      by (rule mp)
  qed
  show ?thesis by (rule conjI [OF A B])
qed

theorem add_listing_rejects_falsy_witness:
  "map_of free_listing ''price'' = Some (Num (Fin 0))
   \<and> add_listing_index example_js free_listing example_world =
       (send 400 (Obj [(''error'', Str ''Missing required fields.'')]), example_world)
   \<and> add_listing_part_001 example_js free_listing example_world =
       (send 400 (Obj [(''error'', Str ''Missing required fields.'')]), example_world)"
proof -
  have P: "map_of free_listing ''price'' = Some (Num (Fin 0))"
    by (simp add: free_listing_def)
  then have Q: "map_of free_listing ''price'' = Some (Num (Fin 0)) \<or> map_of free_listing ''name'' = Some (Str [])"
    by (rule disjI1)
  note T = add_listing_rejects_falsy [of free_listing example_js example_world, THEN conjunct2, THEN mp, OF Q]
  show ?thesis using P T by (simp only: simp_thms)
qed

lemma create_booking_guard:
  "booking_info_missing req \<Longrightarrow>
     create_booking_index J req w = (send 400 (Obj [(''error'', Str ''Missing booking information.'')]), w)
     \<and> create_booking_part_001 J req w = (send 400 (Obj [(''error'', Str ''Missing booking information.'')]), w)"
  by (simp add: create_booking_index_def create_booking_part_001_def)

text \<open>
  C2. A booking request in which \<open>userId\<close> is missing, \<open>cartItems\<close> is missing or
  empty, or \<open>siteLocation\<close> is missing is answered with 400 and has no side effect: the
  world is unchanged, so no Booking document is created and no capability is called.
\<close>

theorem create_booking_rejects_missing:
  "field req ''userId'' = Undefined \<or> field req ''cartItems'' = Undefined
     \<or> field req ''cartItems'' = Arr [] \<or> field req ''siteLocation'' = Undefined \<Longrightarrow>
   create_booking_index J req w = (send 400 (Obj [(''error'', Str ''Missing booking information.'')]), w)
   \<and> create_booking_part_001 J req w = (send 400 (Obj [(''error'', Str ''Missing booking information.'')]), w)"
proof -
  assume "field req ''userId'' = Undefined \<or> field req ''cartItems'' = Undefined
     \<or> field req ''cartItems'' = Arr [] \<or> field req ''siteLocation'' = Undefined"
  then have "booking_info_missing req"
    by (auto simp: booking_info_missing_def field_of_def)
  then show ?thesis by (rule create_booking_guard)
qed

theorem create_booking_rejects_missing_witness:
  "field [(''userId'', Str ''u1''), (''cartItems'', Arr [])] ''cartItems'' = Arr []
   \<and> create_booking_index example_js [(''userId'', Str ''u1''), (''cartItems'', Arr [])] example_world =
        (send 400 (Obj [(''error'', Str ''Missing booking information.'')]), example_world)
   \<and> create_booking_part_001 example_js [(''userId'', Str ''u1''), (''cartItems'', Arr [])] example_world =
        (send 400 (Obj [(''error'', Str ''Missing booking information.'')]), example_world)"
proof -
  have P: "field [(''userId'', Str ''u1''), (''cartItems'', Arr [])] ''cartItems'' = Arr []"
    by (simp add: field_def)
  have Q: "field [(''userId'', Str ''u1''), (''cartItems'', Arr [])] ''userId'' = Undefined
     \<or> field [(''userId'', Str ''u1''), (''cartItems'', Arr [])] ''cartItems'' = Undefined
     \<or> field [(''userId'', Str ''u1''), (''cartItems'', Arr [])] ''cartItems'' = Arr []
     \<or> field [(''userId'', Str ''u1''), (''cartItems'', Arr [])] ''siteLocation'' = Undefined"
    using P by (simp only: simp_thms)
  from create_booking_rejects_missing [OF Q, of example_js example_world] P
  show ?thesis by (simp only: simp_thms)
qed

section \<open>Properties of the bookings\<close>

lemma field_obj_set: "field (obj_set d k v) k' = (if k' = k then v else field d k')"
  by (induction d k v rule: obj_set.induct) (auto simp: field_def)

lemma obj_set_twice: "obj_set (obj_set d k v) k v = obj_set d k v"
  by (induction d k v rule: obj_set.induct) auto

lemma spread_single: "spread d [(k, v)] = obj_set d k v"
  by (simp add: spread_def)

lemma ids_patch: "fst ` set (map (\<lambda>doc. if fst doc = i then (i, g doc) else doc) xs) = fst ` set xs"
proof -
  have "map fst (map (\<lambda>doc. if fst doc = i then (i, g doc) else doc) xs) = map fst xs"
    by (induction xs) auto
  then have "set (map fst (map (\<lambda>doc. if fst doc = i then (i, g doc) else doc) xs)) = set (map fst xs)"
    by (rule arg_cong)
  then show ?thesis by (simp only: set_map)
qed

lemma db_update_ids:
  "fst ` set (store (snd (db_update c i p w)) c') = fst ` set (store w c')"
  by (cases "c' = c") (simp_all add: db_update_def traced_def Let_def ids_patch del: set_map)

lemma db_update_rejects: "db_rejects (snd (db_update c i p w)) = db_rejects w"
  by (simp add: db_update_def traced_def Let_def)

lemma cancel_booking_snd:
  "snd (cancel_booking i w) = snd (db_update ''bookings'' i [(''status'', Str ''Cancelled'')] w)"
  by (simp add: cancel_booking_def split: prod.splits sum.splits)

lemma cancel_booking_fst:
  "fst (cancel_booking i w) =
     (if db_rejects w (DbUpdate ''bookings'' i [(''status'', Str ''Cancelled'')])
         \<or> i \<notin> fst ` set (store w ''bookings'')
      then send 500 (Obj [(''error'', Str ''Failed to cancel booking.'')])
      else send 200 (Obj [(''message'', Str ''Booking cancelled successfully!'')]))"
  by (simp add: cancel_booking_def db_update_def Let_def)

lemma cancel_store:
  "store (snd (db_update ''bookings'' i [(''status'', Str ''Cancelled'')] w)) =
     (if db_rejects w (DbUpdate ''bookings'' i [(''status'', Str ''Cancelled'')])
         \<or> i \<notin> fst ` set (store w ''bookings'')
      then store w
      else (store w)(''bookings'' :=
             map (\<lambda>doc. if fst doc = i then (i, obj_set (snd doc) ''status'' (Str ''Cancelled'')) else doc)
               (store w ''bookings'')))"
  by (simp add: db_update_def traced_def Let_def spread_single cong: if_cong)

lemma cancel_map_twice:
  "map (\<lambda>doc. if fst doc = i then (i, obj_set (snd doc) k v) else doc)
     (map (\<lambda>doc. if fst doc = i then (i, obj_set (snd doc) k v) else doc) xs) =
   map (\<lambda>doc. if fst doc = i then (i, obj_set (snd doc) k v) else doc) xs"
  by (induction xs) (auto simp: obj_set_twice)

lemma cancel_booking_twice:
  "store (snd (cancel_booking i (snd (cancel_booking i w)))) = store (snd (cancel_booking i w))"
proof -
  let ?p = "[(''status'', Str ''Cancelled'')]"
  let ?w1 = "snd (db_update ''bookings'' i ?p w)"
  have R: "db_rejects ?w1 = db_rejects w" by (rule db_update_rejects)
  have I: "fst ` set (store ?w1 ''bookings'') = fst ` set (store w ''bookings'')"
    by (rule db_update_ids)
  have "store (snd (db_update ''bookings'' i ?p ?w1)) = store ?w1"
  proof (cases "db_rejects w (DbUpdate ''bookings'' i ?p) \<or> i \<notin> fst ` set (store w ''bookings'')")
    case True
    then show ?thesis
      by (subst cancel_store) (simp only: R I if_True)
  next
    case False
    have "store (snd (db_update ''bookings'' i ?p ?w1)) =
        (store ?w1)(''bookings'' :=
             map (\<lambda>doc. if fst doc = i then (i, obj_set (snd doc) ''status'' (Str ''Cancelled'')) else doc)
               (store ?w1 ''bookings''))"
      using False by (subst cancel_store) (simp only: R I if_False)
    also have "\<dots> = store ?w1"
      using False by (simp only: cancel_store if_False fun_upd_same fun_upd_upd cancel_map_twice)
    finally show ?thesis .
  qed
  then show ?thesis by (simp only: cancel_booking_snd)
qed

lemma cancel_booking_sets_status:
  assumes "\<not> db_rejects w (DbUpdate ''bookings'' i [(''status'', Str ''Cancelled'')])"
    and "(i, d) \<in> set (store (snd (cancel_booking i w)) ''bookings'')"
  shows "field d ''status'' = Str ''Cancelled''"
proof -
  have M: "i \<in> fst ` set (store w ''bookings'')"
  proof -
    have "fst (i, d) \<in> fst ` set (store (snd (cancel_booking i w)) ''bookings'')"
      using assms(2) by (rule imageI)
    then show ?thesis by (simp only: cancel_booking_snd db_update_ids fst_conv)
  qed
  have "(i, d) \<in> set (map (\<lambda>doc. if fst doc = i then (i, obj_set (snd doc) ''status'' (Str ''Cancelled'')) else doc)
               (store w ''bookings''))"
    using assms M by (simp only: cancel_booking_snd cancel_store simp_thms if_False fun_upd_same)
  then obtain d0 where "d = obj_set d0 ''status'' (Str ''Cancelled'')"
    by (auto split: if_splits)
  then show ?thesis by (simp add: field_obj_set)
qed

text \<open>
  C6. Cancelling a booking by identifier sets the status of that booking to Cancelled
  whatever it was before, so a second cancellation leaves the documents as the first
  one left them. For an identifier with no booking the update is rejected and the answer
  is 500: the handler makes no existence check and never answers 404.
\<close>

theorem cancel_booking_idempotent:
  "(i \<in> fst ` set (store w ''bookings'')
      \<and> \<not> db_rejects w (DbUpdate ''bookings'' i [(''status'', Str ''Cancelled'')]) \<longrightarrow>
      fst (cancel_booking i w) = send 200 (Obj [(''message'', Str ''Booking cancelled successfully!'')])
      \<and> i \<in> fst ` set (store (snd (cancel_booking i w)) ''bookings'')
      \<and> (\<forall>d. (i, d) \<in> set (store (snd (cancel_booking i w)) ''bookings'') \<longrightarrow>
             field d ''status'' = Str ''Cancelled''))
   \<and> store (snd (cancel_booking i (snd (cancel_booking i w)))) = store (snd (cancel_booking i w))
   \<and> (i \<notin> fst ` set (store w ''bookings'') \<longrightarrow>
        fst (cancel_booking i w) = send 500 (Obj [(''error'', Str ''Failed to cancel booking.'')])
        \<and> store (snd (cancel_booking i w)) = store w)
   \<and> status (fst (cancel_booking i w)) \<noteq> Num (Fin 404)"
proof -
  have A: "i \<in> fst ` set (store w ''bookings'')
      \<and> \<not> db_rejects w (DbUpdate ''bookings'' i [(''status'', Str ''Cancelled'')]) \<longrightarrow>
      fst (cancel_booking i w) = send 200 (Obj [(''message'', Str ''Booking cancelled successfully!'')])
      \<and> i \<in> fst ` set (store (snd (cancel_booking i w)) ''bookings'')
      \<and> (\<forall>d. (i, d) \<in> set (store (snd (cancel_booking i w)) ''bookings'') \<longrightarrow>
             field d ''status'' = Str ''Cancelled'')"
  proof
    assume H: "i \<in> fst ` set (store w ''bookings'')
      \<and> \<not> db_rejects w (DbUpdate ''bookings'' i [(''status'', Str ''Cancelled'')])"
    have 1: "fst (cancel_booking i w) = send 200 (Obj [(''message'', Str ''Booking cancelled successfully!'')])"
      using H by (simp only: cancel_booking_fst simp_thms if_False)
    have 2: "i \<in> fst ` set (store (snd (cancel_booking i w)) ''bookings'')"
      using H by (simp only: cancel_booking_snd db_update_ids)
    have 3: "\<forall>d. (i, d) \<in> set (store (snd (cancel_booking i w)) ''bookings'') \<longrightarrow>
             field d ''status'' = Str ''Cancelled''"
      using H cancel_booking_sets_status [of w i] by blast
    from 1 2 3 show "fst (cancel_booking i w) = send 200 (Obj [(''message'', Str ''Booking cancelled successfully!'')])
      \<and> i \<in> fst ` set (store (snd (cancel_booking i w)) ''bookings'')
      \<and> (\<forall>d. (i, d) \<in> set (store (snd (cancel_booking i w)) ''bookings'') \<longrightarrow>
             field d ''status'' = Str ''Cancelled'')"
      by (simp only: simp_thms)
  qed
  have B: "store (snd (cancel_booking i (snd (cancel_booking i w)))) = store (snd (cancel_booking i w))"
    by (rule cancel_booking_twice)
  have C: "i \<notin> fst ` set (store w ''bookings'') \<longrightarrow>
        fst (cancel_booking i w) = send 500 (Obj [(''error'', Str ''Failed to cancel booking.'')])
        \<and> store (snd (cancel_booking i w)) = store w"
    by (simp add: cancel_booking_fst cancel_booking_snd cancel_store)
  have D: "status (fst (cancel_booking i w)) \<noteq> Num (Fin 404)"
    by (simp add: cancel_booking_fst send_def)
  show ?thesis by (rule conjI [OF A conjI [OF B conjI [OF C D]]])
qed

theorem cancel_booking_idempotent_witness:
  "''b1'' \<in> fst ` set (store example_world ''bookings'')
   \<and> \<not> db_rejects example_world (DbUpdate ''bookings'' ''b1'' [(''status'', Str ''Cancelled'')])
   \<and> fst (cancel_booking ''b1'' example_world) =
        send 200 (Obj [(''message'', Str ''Booking cancelled successfully!'')])
   \<and> ''b1'' \<in> fst ` set (store (snd (cancel_booking ''b1'' example_world)) ''bookings'')
   \<and> ''b9'' \<notin> fst ` set (store example_world ''bookings'')
   \<and> fst (cancel_booking ''b9'' example_world) =
        send 500 (Obj [(''error'', Str ''Failed to cancel booking.'')])
   \<and> store (snd (cancel_booking ''b9'' example_world)) = store example_world"
proof -
  have H1: "''b1'' \<in> fst ` set (store example_world ''bookings'')
     \<and> \<not> db_rejects example_world (DbUpdate ''bookings'' ''b1'' [(''status'', Str ''Cancelled'')])"
    by (simp add: example_world_def)
  have H2: "''b9'' \<notin> fst ` set (store example_world ''bookings'')"
    by (simp add: example_world_def)
  note T1 = cancel_booking_idempotent [of "''b1''" example_world, THEN conjunct1, THEN mp, OF H1]
  note T2 = cancel_booking_idempotent [of "''b9''" example_world, THEN conjunct2, THEN conjunct2,
      THEN conjunct1, THEN mp, OF H2]
  show ?thesis
    using H1 H2 T1 T2 by (simp only: simp_thms)
qed

lemma email_process_store: "store (email_process J req i w) = store w"
  by (simp add: email_process_def getUser_call_def sendMail_call_def traced_def
      split: sum.splits prod.splits)

lemma booking_doc_paymentDetails:
  "map_of (booking_doc J req w) ''paymentDetails'' =
     Some (if truthy (field req ''paymentDetails'') then field req ''paymentDetails'' else Obj [])"
  by (simp add: booking_doc_def)

lemma db_add_store:
  "store (snd (db_add c d w)) c' = store w c' \<or>
   (\<exists>i. fst (db_add c d w) = Inr i \<and> store (snd (db_add c d w)) c' = store w c' @ [(i, d)] \<and> c' = c)"
  by (simp add: db_add_def traced_def Let_def)

lemma create_booking_index_store:
  "store (snd (create_booking_index J req w)) c = store w c \<or>
   (\<exists>i. store (snd (create_booking_index J req w)) c = store w c @ [(i, booking_doc J req w)])"
  using db_add_store [of "''bookings''" "booking_doc J req w" w c]
  by (auto simp: create_booking_index_def email_process_store split: prod.splits sum.splits)

lemma create_booking_part_001_store:
  "store (snd (create_booking_part_001 J req w)) c = store w c \<or>
   (\<exists>i. store (snd (create_booking_part_001 J req w)) c = store w c @ [(i, booking_doc J req w)])"
  using db_add_store [of "''bookings''" "booking_doc J req w" w c]
  by (auto simp: create_booking_part_001_def split: prod.splits sum.splits)

lemma paymentDetails_or_truthy:
  "truthy (if truthy v then v else Obj [])"
  by simp

lemma new_booking_paymentDetails:
  assumes S: "s' = s \<or> (\<exists>i. s' = s @ [(i, booking_doc J req w)])"
    and M: "(i, d) \<in> set s'"
  shows "(i, d) \<in> set s
       \<or> (map_of d ''paymentDetails'' =
             Some (if truthy (field req ''paymentDetails'') then field req ''paymentDetails'' else Obj [])
           \<and> truthy (field d ''paymentDetails''))"
proof -
  have "(i, d) \<in> set s \<or> d = booking_doc J req w"
    using S M by auto
  then show ?thesis
    by (auto simp only: booking_doc_paymentDetails field_def option.case paymentDetails_or_truthy)
qed

text \<open>
  C9. Every Booking document that create-booking stores has a \<open>paymentDetails\<close> field:
  its value is the one of the request when that is truthy and the empty object otherwise,
  so it is never absent, \<open>undefined\<close> or \<open>null\<close>.
\<close>

theorem created_booking_has_paymentDetails:
  "(\<forall>i d. (i, d) \<in> set (store (snd (create_booking_index J req w)) ''bookings'') \<longrightarrow>
        (i, d) \<in> set (store w ''bookings'')
        \<or> (map_of d ''paymentDetails'' =
              Some (if truthy (field req ''paymentDetails'') then field req ''paymentDetails'' else Obj [])
            \<and> truthy (field d ''paymentDetails'')))
   \<and> (\<forall>i d. (i, d) \<in> set (store (snd (create_booking_part_001 J req w)) ''bookings'') \<longrightarrow>
        (i, d) \<in> set (store w ''bookings'')
        \<or> (map_of d ''paymentDetails'' =
              Some (if truthy (field req ''paymentDetails'') then field req ''paymentDetails'' else Obj [])
            \<and> truthy (field d ''paymentDetails'')))"
  using new_booking_paymentDetails [OF create_booking_index_store]
    new_booking_paymentDetails [OF create_booking_part_001_store]
  by blast

lemma db_add_ok:
  "\<not> db_rejects w (DbAdd c d) \<Longrightarrow> auto_ids w (next_auto w) \<notin> fst ` set (store w c) \<Longrightarrow>
   db_add c d w =
     (Inr (auto_ids w (next_auto w)),
      w\<lparr>calls := calls w @ [DbAdd c d], next_auto := Suc (next_auto w),
        store := (store w)(c := store w c @ [(auto_ids w (next_auto w), d)])\<rparr>)"
  by (simp add: db_add_def traced_def Let_def)

lemma db_add_failed:
  "db_rejects w (DbAdd c d) \<or> auto_ids w (next_auto w) \<in> fst ` set (store w c) \<Longrightarrow>
   db_add c d w = (Inl Rejected, w\<lparr>calls := calls w @ [DbAdd c d], next_auto := Suc (next_auto w)\<rparr>)"
  by (auto simp add: db_add_def traced_def Let_def)

lemma create_booking_write_failed:
  assumes "\<not> booking_info_missing req"
    and "db_rejects w (DbAdd ''bookings'' (booking_doc J req w))
         \<or> auto_ids w (next_auto w) \<in> fst ` set (store w ''bookings'')"
  shows "fst (create_booking_index J req w) = send 500 (Obj [(''error'', Str ''Failed to create booking.'')])"
    and "store (snd (create_booking_index J req w)) = store w"
  using assms(1) db_add_failed [OF assms(2)] by (simp_all add: create_booking_index_def)

lemma example_request_valid: "\<not> booking_info_missing (example_request u) \<longleftrightarrow> u \<noteq> []"
  by (simp add: booking_info_missing_def example_request_def field_def field_of_def)

lemma example_add_ok:
  "\<not> db_rejects example_world k"
  "auto_ids example_world (next_auto example_world) = ''auto0''"
  "''auto0'' \<notin> fst ` set (store example_world ''bookings'')"
  by (simp_all add: example_world_def digits.simps)

theorem created_booking_has_paymentDetails_witness:
  "(''auto0'', booking_doc example_js (example_request ''u1'') example_world)
      \<in> set (store (snd (create_booking_index example_js (example_request ''u1'') example_world)) ''bookings'')
   \<and> (''auto0'', booking_doc example_js (example_request ''u1'') example_world)
      \<notin> set (store example_world ''bookings'')
   \<and> map_of (example_request ''u1'') ''paymentDetails'' = None
   \<and> map_of (booking_doc example_js (example_request ''u1'') example_world) ''paymentDetails'' = Some (Obj [])
   \<and> truthy (field (booking_doc example_js (example_request ''u1'') example_world) ''paymentDetails'')"
proof -
  let ?d = "booking_doc example_js (example_request ''u1'') example_world"
  have V: "\<not> booking_info_missing (example_request ''u1'')"
    by (simp add: example_request_valid)
  have A: "db_add ''bookings'' ?d example_world =
     (Inr ''auto0'',
      example_world\<lparr>calls := calls example_world @ [DbAdd ''bookings'' ?d],
        next_auto := Suc (next_auto example_world),
        store := (store example_world)(''bookings'' := store example_world ''bookings'' @ [(''auto0'', ?d)])\<rparr>)"
    using db_add_ok [of example_world "''bookings''" ?d] by (simp only: example_add_ok simp_thms)
  have M: "(''auto0'', ?d)
      \<in> set (store (snd (create_booking_index example_js (example_request ''u1'') example_world)) ''bookings'')"
    by (simp add: create_booking_index_def V A email_process_store)
  have N: "(''auto0'', ?d) \<notin> set (store example_world ''bookings'')"
    using example_add_ok(3) by (metis fst_conv image_eqI)
  have P: "map_of (example_request ''u1'') ''paymentDetails'' = None"
    by (simp add: example_request_def)
  then have F: "\<not> truthy (field (example_request ''u1'') ''paymentDetails'')"
    by (simp add: field_def)
  note T = created_booking_has_paymentDetails [of example_js "example_request ''u1''" example_world,
      THEN conjunct1, THEN spec, THEN spec, THEN mp, OF M]
  from T N have "map_of ?d ''paymentDetails'' =
              Some (if truthy (field (example_request ''u1'') ''paymentDetails'')
                    then field (example_request ''u1'') ''paymentDetails'' else Obj [])
            \<and> truthy (field ?d ''paymentDetails'')"
    by (simp only: simp_thms)
  then have "map_of ?d ''paymentDetails'' = Some (Obj []) \<and> truthy (field ?d ''paymentDetails'')"
    using F by (simp only: if_False)
  then show ?thesis using M N P by (simp only: simp_thms)
qed

section \<open>Properties of listing creation\<close>

lemma save_listing_created:
  assumes "save_listing J price c mk w = (r, w')" and "status r = Num (Fin 201)"
  shows "\<exists>p i. Number J price = Inr p
           \<and> r = send 201 (Obj [(''message'', Str ''Listing created successfully!''), (''id'', Str i)])
           \<and> store w' c = store w c @ [(i, mk p)] \<and> db_rejects w' = db_rejects w"
  using assms
  by (auto simp: save_listing_def db_add_def traced_def Let_def send_def split: sum.splits if_splits)

lemma add_listing_material:
  assumes "field req ''listingType'' = Str ''Material''"
  shows "add_listing_index J req w =
     (if listing_fields_missing req
      then (send 400 (Obj [(''error'', Str ''Missing required fields.'')]), w)
      else save_listing J (field req ''price'') ''materials'' (material_data req) w)"
  by (simp add: add_listing_index_def assms)

lemma material_view:
  "doc_view (i, material_data req p) = Obj ((''id'', Str i) # material_data req p)"
  by (simp add: doc_view_def spread_def material_data_def)

lemma material_view_fields:
  "field_of (doc_view (i, material_data req p)) ''id'' = Str i"
  "field_of (doc_view (i, material_data req p)) ''specs'' = field req ''description''"
  "field_of (doc_view (i, material_data req p)) ''pricePerUnit'' = Num p"
  unfolding material_view by (simp_all add: field_of_def field_def material_data_def)

lemma get_materials_ok:
  "\<not> db_rejects w (DbGet ''materials'') \<Longrightarrow>
   fst (get_materials w) = send 200 (Arr (map doc_view (store w ''materials'')))"
  by (simp add: get_materials_def db_get_def Let_def)

text \<open>
  C7. When add-listing with \<open>listingType\<close> Material has answered 201, a following
  \<open>GET /api/materials\<close> that the database serves returns a document with the identifier
  of the answer, whose \<open>specs\<close> is the submitted \<open>description\<close> and whose
  \<open>pricePerUnit\<close> is \<open>Number(price)\<close>.
\<close>

theorem material_round_trip:
  assumes "field req ''listingType'' = Str ''Material''"
    and "add_listing_index J req w = (r, w')"
    and "status r = Num (Fin 201)"
    and "\<not> db_rejects w' (DbGet ''materials'')"
  shows "\<exists>i p docs.
           body r = Obj [(''message'', Str ''Listing created successfully!''), (''id'', Str i)]
         \<and> Number J (field req ''price'') = Inr p
         \<and> fst (get_materials w') = send 200 (Arr docs)
         \<and> (\<exists>doc \<in> set docs. field_of doc ''id'' = Str i
               \<and> field_of doc ''specs'' = field req ''description''
               \<and> field_of doc ''pricePerUnit'' = Num p)"
proof -
  have "\<not> listing_fields_missing req"
    using assms(1-3) by (auto simp: add_listing_material send_def)
  then have "save_listing J (field req ''price'') ''materials'' (material_data req) w = (r, w')"
    using assms(1,2) by (simp add: add_listing_material)
  from save_listing_created [OF this assms(3)]
  obtain p i where P: "Number J (field req ''price'') = Inr p"
    and R: "r = send 201 (Obj [(''message'', Str ''Listing created successfully!''), (''id'', Str i)])"
    and S: "store w' ''materials'' = store w ''materials'' @ [(i, material_data req p)]"
    by blast
  let ?docs = "map doc_view (store w' ''materials'')"
  have G: "fst (get_materials w') = send 200 (Arr ?docs)"
    using assms(4) by (rule get_materials_ok)
  have M: "doc_view (i, material_data req p) \<in> set ?docs"
    by (simp add: S)
  have B: "body r = Obj [(''message'', Str ''Listing created successfully!''), (''id'', Str i)]"
    by (simp add: R send_def)
  from B P G M material_view_fields [of i req p]
  show ?thesis by blast
qed

theorem material_round_trip_witness:
  "field material_request ''listingType'' = Str ''Material''
   \<and> fst (add_listing_index example_js material_request example_world) =
        send 201 (Obj [(''message'', Str ''Listing created successfully!''), (''id'', Str ''auto0'')])
   \<and> \<not> db_rejects (snd (add_listing_index example_js material_request example_world)) (DbGet ''materials'')
   \<and> Number example_js (field material_request ''price'') = Inr (Fin 250)
   \<and> fst (get_materials (snd (add_listing_index example_js material_request example_world))) =
        send 200 (Arr [Obj [(''id'', Str ''auto0''), (''name'', Str ''Sand''),
                            (''specs'', Str ''River sand''), (''pricePerUnit'', Num (Fin 250)),
                            (''imageUrl'', Str ''sand.png''), (''merchantId'', Str ''m1''),
                            (''unit'', Str ''ton''), (''stockQuantity'', Num (Fin 100))]])"
proof -
  let ?out = "add_listing_index example_js material_request example_world"
  have L: "field material_request ''listingType'' = Str ''Material''"
    by (simp add: material_request_def field_def)
  have V: "\<not> listing_fields_missing material_request"
    by (simp add: listing_fields_missing_def material_request_def field_def)
  have P: "Number example_js (field material_request ''price'') = Inr (Fin 250)"
    by (simp add: material_request_def field_def example_js_def)
  have I: "''auto0'' \<notin> fst ` set (store example_world ''materials'')"
    by (simp add: example_world_def)
  have A: "db_add ''materials'' (material_data material_request (Fin 250)) example_world =
     (Inr ''auto0'',
      example_world\<lparr>calls := calls example_world @ [DbAdd ''materials'' (material_data material_request (Fin 250))],
        next_auto := Suc (next_auto example_world),
        store := (store example_world)(''materials'' := store example_world ''materials''
                   @ [(''auto0'', material_data material_request (Fin 250))])\<rparr>)"
    using db_add_ok [of example_world "''materials''" "material_data material_request (Fin 250)"] I
    by (simp only: example_add_ok simp_thms)
  have O: "?out =
     (send 201 (Obj [(''message'', Str ''Listing created successfully!''), (''id'', Str ''auto0'')]),
      example_world\<lparr>calls := calls example_world @ [DbAdd ''materials'' (material_data material_request (Fin 250))],
        next_auto := Suc (next_auto example_world),
        store := (store example_world)(''materials'' := store example_world ''materials''
                   @ [(''auto0'', material_data material_request (Fin 250))])\<rparr>)"
    by (simp add: add_listing_material [OF L] V save_listing_def P A)
  have S: "status (fst ?out) = Num (Fin 201)"
    by (simp add: O send_def)
  have R: "\<not> db_rejects (snd ?out) (DbGet ''materials'')"
    by (simp add: O example_add_ok)
  have E: "store example_world ''materials'' = []"
    by (simp add: example_world_def)
  have G: "fst (get_materials (snd ?out)) =
        send 200 (Arr [Obj [(''id'', Str ''auto0''), (''name'', Str ''Sand''),
                            (''specs'', Str ''River sand''), (''pricePerUnit'', Num (Fin 250)),
                            (''imageUrl'', Str ''sand.png''), (''merchantId'', Str ''m1''),
                            (''unit'', Str ''ton''), (''stockQuantity'', Num (Fin 100))]])"
    using material_round_trip [OF L _ S R, of example_js example_world]
    by (simp add: get_materials_ok [OF R]) (simp add: O E material_view, simp add: material_data_def material_request_def field_def)
  show ?thesis
    using L O R P G by (simp only: fst_conv simp_thms)
qed

section \<open>Properties of booking creation\<close>

lemma db_add_Inr:
  assumes "db_add c d w = (Inr i, w1)"
  shows "calls w1 = calls w @ [DbAdd c d]" and "store w1 c = store w c @ [(i, d)]"
    and "getUser w1 = getUser w"
  using assms by (auto simp: db_add_def traced_def Let_def split: if_splits)

lemma email_process_calls:
  "calls (email_process J req i w) =
     calls w @ [GetUser (field req ''userId'')] @
       (case getUser w (field req ''userId'') of
          Inl e \<Rightarrow> []
        | Inr user \<Rightarrow> (case mailOptions J req i user of Inl e \<Rightarrow> [] | Inr m \<Rightarrow> [SendMail m]))"
  by (simp add: email_process_def getUser_call_def sendMail_call_def traced_def split: sum.splits)

lemma create_booking_index_any_mail:
  "fst (create_booking_index J req (w\<lparr>getUser := g, sendMail_fails := f\<rparr>)) =
     fst (create_booking_index J req w)
   \<and> store (snd (create_booking_index J req (w\<lparr>getUser := g, sendMail_fails := f\<rparr>))) =
     store (snd (create_booking_index J req w))"
  by (simp add: create_booking_index_def db_add_def traced_def Let_def email_process_store
      booking_doc_def)

lemma create_booking_index_written:
  assumes "\<not> booking_info_missing req"
    and "db_add ''bookings'' (booking_doc J req w) w = (Inr i, w1)"
  shows "create_booking_index J req w =
      (send 201 (Obj [(''message'', Str ''Booking created successfully!''), (''bookingId'', Str i)]),
       email_process J req i w1)"
  by (simp add: create_booking_index_def assms)

lemma create_booking_part_001_written:
  assumes "\<not> booking_info_missing req"
    and "db_add ''bookings'' (booking_doc J req w) w = (Inr i, w1)"
  shows "create_booking_part_001 J req w =
      (send 201 (Obj [(''message'', Str ''Booking created successfully!''), (''bookingId'', Str i)]), w1)"
  by (simp add: create_booking_part_001_def assms)

lemma create_booking_index_calls:
  assumes "\<not> booking_info_missing req"
    and "db_add ''bookings'' (booking_doc J req w) w = (Inr i, w1)"
  shows "calls (snd (create_booking_index J req w)) =
         calls w @ [DbAdd ''bookings'' (booking_doc J req w), GetUser (field req ''userId'')] @
           (case getUser w (field req ''userId'') of
              Inl e \<Rightarrow> []
            | Inr user \<Rightarrow> (case mailOptions J req i user of Inl e \<Rightarrow> [] | Inr m \<Rightarrow> [SendMail m]))"
  by (simp add: create_booking_index_written [OF assms] email_process_calls db_add_Inr [OF assms(2)])

text \<open>
  C1, as amended. For a request that passes the guard and whose database write succeeds,
  create-booking stores a Booking with status Confirmed and answers 201 with the generated
  identifier, whatever the account lookup and the mail transport do: the answer and the
  stored documents are the same for every behaviour of the two. The handler of
  \<open>src/index.js\<close> looks the account up once and calls the email capability at most once,
  namely when the lookup succeeds and the message can be built; after a failed lookup it
  sends nothing. The handler of \<open>src/unnamed/part_001\<close> has no email step.
\<close>

theorem create_booking_email_best_effort:
  assumes valid: "\<not> booking_info_missing req"
    and written: "db_add ''bookings'' (booking_doc J req w) w = (Inr i, w1)"
  shows
    "fst (create_booking_index J req w) =
       send 201 (Obj [(''message'', Str ''Booking created successfully!''), (''bookingId'', Str i)])
     \<and> fst (create_booking_part_001 J req w) =
       send 201 (Obj [(''message'', Str ''Booking created successfully!''), (''bookingId'', Str i)])
     \<and> store (snd (create_booking_index J req w)) ''bookings'' =
       store w ''bookings'' @ [(i, booking_doc J req w)]
     \<and> store (snd (create_booking_part_001 J req w)) ''bookings'' =
       store w ''bookings'' @ [(i, booking_doc J req w)]
     \<and> field (booking_doc J req w) ''status'' = Str ''Confirmed''
     \<and> calls (snd (create_booking_index J req w)) =
         calls w @ [DbAdd ''bookings'' (booking_doc J req w), GetUser (field req ''userId'')] @
           (case getUser w (field req ''userId'') of
              Inl e \<Rightarrow> []
            | Inr user \<Rightarrow> (case mailOptions J req i user of Inl e \<Rightarrow> [] | Inr m \<Rightarrow> [SendMail m]))
     \<and> calls (snd (create_booking_part_001 J req w)) =
         calls w @ [DbAdd ''bookings'' (booking_doc J req w)]
     \<and> (\<forall>g f. fst (create_booking_index J req (w\<lparr>getUser := g, sendMail_fails := f\<rparr>)) =
                 fst (create_booking_index J req w)
               \<and> store (snd (create_booking_index J req (w\<lparr>getUser := g, sendMail_fails := f\<rparr>))) =
                 store (snd (create_booking_index J req w)))"
proof -
  note I = create_booking_index_written [OF valid written]
  note P = create_booking_part_001_written [OF valid written]
  have S: "field (booking_doc J req w) ''status'' = Str ''Confirmed''"
    by (simp add: booking_doc_def field_def)
  note C = create_booking_index_calls [OF valid written]
  have M: "\<forall>g f. fst (create_booking_index J req (w\<lparr>getUser := g, sendMail_fails := f\<rparr>)) =
                 fst (create_booking_index J req w)
               \<and> store (snd (create_booking_index J req (w\<lparr>getUser := g, sendMail_fails := f\<rparr>))) =
                 store (snd (create_booking_index J req w))"
    using create_booking_index_any_mail by blast
  show ?thesis
    using S C M by (simp add: I P email_process_store db_add_Inr [OF written])
qed

lemma example_booking_written:
  "db_add ''bookings'' (booking_doc example_js (example_request u) example_world) example_world =
     (Inr ''auto0'',
      example_world\<lparr>calls := calls example_world
          @ [DbAdd ''bookings'' (booking_doc example_js (example_request u) example_world)],
        next_auto := Suc (next_auto example_world),
        store := (store example_world)(''bookings'' := store example_world ''bookings''
          @ [(''auto0'', booking_doc example_js (example_request u) example_world)])\<rparr>)"
  using db_add_ok [of example_world "''bookings''" "booking_doc example_js (example_request u) example_world"]
  by (simp only: example_add_ok simp_thms)

lemma example_mail:
  "mailOptions example_js (example_request ''u1'') ''auto0'' (Obj [(''email'', Str ''u1@example.com'')]) =
     Inr \<lparr>mail_to = Str ''u1@example.com'',
          mail_subject = ''Your BuildConnect Booking Confirmation (#auto0)'',
          mail_html = [''<li>Cement (Quantity: 2)</li>'', ''1,500'', ''12 MG Road'', ''Camp'',
                       ''Pune'', ''411001'', ''9800000000'']\<rparr>"
  by (simp add: mailOptions_def and_then_def itemsList_def item_html_def total_text_def
      site_text_def example_request_def field_def example_js_def)

theorem create_booking_email_best_effort_witness:
  "\<not> booking_info_missing (example_request ''u1'')
   \<and> fst (db_add ''bookings'' (booking_doc example_js (example_request ''u1'') example_world) example_world) =
        Inr ''auto0''
   \<and> sendMail_fails example_world
        \<lparr>mail_to = Str ''u1@example.com'',
         mail_subject = ''Your BuildConnect Booking Confirmation (#auto0)'',
         mail_html = [''<li>Cement (Quantity: 2)</li>'', ''1,500'', ''12 MG Road'', ''Camp'',
                      ''Pune'', ''411001'', ''9800000000'']\<rparr>
   \<and> fst (create_booking_index example_js (example_request ''u1'') example_world) =
        send 201 (Obj [(''message'', Str ''Booking created successfully!''), (''bookingId'', Str ''auto0'')])
   \<and> calls (snd (create_booking_index example_js (example_request ''u1'') example_world)) =
        [DbAdd ''bookings'' (booking_doc example_js (example_request ''u1'') example_world),
         GetUser (Str ''u1''),
         SendMail \<lparr>mail_to = Str ''u1@example.com'',
                   mail_subject = ''Your BuildConnect Booking Confirmation (#auto0)'',
                   mail_html = [''<li>Cement (Quantity: 2)</li>'', ''1,500'', ''12 MG Road'', ''Camp'',
                                ''Pune'', ''411001'', ''9800000000'']\<rparr>]"
proof -
  have V: "\<not> booking_info_missing (example_request ''u1'')"
    by (simp add: example_request_valid)
  note A = example_booking_written [of "''u1''"]
  note T = create_booking_email_best_effort [OF V A]
  have U: "field (example_request ''u1'') ''userId'' = Str ''u1''"
    by (simp add: example_request_def field_def)
  have G: "getUser example_world (Str ''u1'') = Inr (Obj [(''email'', Str ''u1@example.com'')])"
    by (simp add: example_world_def)
  have E: "calls example_world = []" "sendMail_fails example_world m" for m
    by (simp_all add: example_world_def)
  show ?thesis
    using V T by (simp add: A U G E example_mail)
qed

theorem create_booking_mail_not_sent:
  "\<not> booking_info_missing (example_request ''u2'')
   \<and> fst (create_booking_index example_js (example_request ''u2'') example_world) =
        send 201 (Obj [(''message'', Str ''Booking created successfully!''), (''bookingId'', Str ''auto0'')])
   \<and> calls (snd (create_booking_index example_js (example_request ''u2'') example_world)) =
        [DbAdd ''bookings'' (booking_doc example_js (example_request ''u2'') example_world),
         GetUser (Str ''u2'')]
   \<and> length (filter is_SendMail
        (calls (snd (create_booking_index example_js (example_request ''u2'') example_world)))) \<noteq> 1
   \<and> filter is_SendMail
        (calls (snd (create_booking_part_001 example_js (example_request ''u1'') example_world))) = []"
proof -
  have V: "\<not> booking_info_missing (example_request u)" if "u \<noteq> []" for u
    using that by (simp add: example_request_valid)
  have U: "field (example_request ''u2'') ''userId'' = Str ''u2''"
    by (simp add: example_request_def field_def)
  have G: "getUser example_world (Str ''u2'') = Inl Rejected"
    by (simp add: example_world_def)
  have E: "calls example_world = []"
    by (simp add: example_world_def)
  have C: "calls (snd (create_booking_index example_js (example_request ''u2'') example_world)) =
        [DbAdd ''bookings'' (booking_doc example_js (example_request ''u2'') example_world),
         GetUser (Str ''u2'')]"
    using create_booking_index_calls [OF V example_booking_written, of "''u2''"]
    by (simp add: U G E)
  have F: "fst (create_booking_index example_js (example_request ''u2'') example_world) =
        send 201 (Obj [(''message'', Str ''Booking created successfully!''), (''bookingId'', Str ''auto0'')])"
    using create_booking_index_written [OF V example_booking_written, of "''u2''"] by simp
  have P: "filter is_SendMail
        (calls (snd (create_booking_part_001 example_js (example_request ''u1'') example_world))) = []"
    using create_booking_part_001_written [OF V example_booking_written, of "''u1''"]
    by (simp add: E)
  show ?thesis
    using V [of "''u2''"] F P by (simp add: C)
qed

section \<open>Properties of the number model\<close>

lemma pow2_powi: "pow2 k = 2 powi k"
  by (simp add: pow2_def power_int_def power_one_over inverse_eq_divide)

lemma bitlen_pos: "0 < k \<Longrightarrow> 0 < bitlen k"
  by (subst bitlen.simps) simp

lemma bitlen_lower: "0 < k \<Longrightarrow> 2 ^ (bitlen k - 1) \<le> k"
proof (induction k rule: bitlen.induct)
  case (1 k)
  show ?case
  proof (cases "k = 1")
    case True
    then show ?thesis by (simp add: bitlen.simps)
  next
    case False
    with "1.prems" have h: "0 < k div 2" by simp
    from "1.IH" "1.prems" h have IH: "2 ^ (bitlen (k div 2) - 1) \<le> k div 2" by simp
    have B: "bitlen k = Suc (bitlen (k div 2))"
      using "1.prems" by (subst bitlen.simps) simp
    have "bitlen k - 1 = Suc (bitlen (k div 2) - 1)"
      using B bitlen_pos [OF h] by simp
    then have "(2::int) ^ (bitlen k - 1) = 2 * 2 ^ (bitlen (k div 2) - 1)"
      by simp
    also have "\<dots> \<le> 2 * (k div 2)"
      using IH by simp
    also have "\<dots> \<le> k"
      by simp
    finally show ?thesis .
  qed
qed

lemma ilog2_lower:
  assumes "1 \<le> a"
  shows "0 \<le> ilog2 a" and "pow2 (ilog2 a) \<le> a"
proof -
  have F: "0 < \<lfloor>a\<rfloor>" using assms by simp
  have E: "ilog2 a = int (bitlen \<lfloor>a\<rfloor> - 1)"
    using assms bitlen_pos [OF F] by (simp add: ilog2_def)
  show "0 \<le> ilog2 a" by (simp add: E)
  have "pow2 (ilog2 a) = of_int (2 ^ (bitlen \<lfloor>a\<rfloor> - 1))"
    by (simp add: E pow2_def)
  also have "\<dots> \<le> of_int \<lfloor>a\<rfloor>"
    using bitlen_lower [OF F] by (simp only: of_int_le_iff)
  also have "\<dots> \<le> a" by simp
  finally show "pow2 (ilog2 a) \<le> a" .
qed

lemma round_half_even_ge: "\<lfloor>x\<rfloor> \<le> round_half_even x"
  by (simp add: round_half_even_def)

lemma round_magnitude_ge:
  assumes "of_int k * pow2 (ulp_exponent a) \<le> a"
  shows "of_int k * pow2 (ulp_exponent a) \<le> round_magnitude a"
proof -
  let ?p = "pow2 (ulp_exponent a)"
  have P: "0 < ?p" by (simp add: pow2_powi)
  have "of_int k \<le> a / ?p"
    using assms P by (simp add: pos_le_divide_eq)
  then have "k \<le> \<lfloor>a / ?p\<rfloor>" by (simp add: le_floor_iff)
  then have "k \<le> round_half_even (a / ?p)"
    using round_half_even_ge [of "a / ?p"] by linarith
  then have "(of_int k :: rat) \<le> of_int (round_half_even (a / ?p))"
    by (simp only: of_int_le_iff)
  then show ?thesis
    using P by (simp add: round_magnitude_def)
qed

lemma round_magnitude_overflow:
  assumes "pow2 1024 \<le> a"
  shows "pow2 1024 \<le> round_magnitude a"
proof -
  have one: "1 \<le> a"
    using assms by (simp add: pow2_def)
  let ?u = "ulp_exponent a"
  have U: "?u = ilog2 a - 52"
    using ilog2_lower(1) [OF one] by (simp add: ulp_exponent_def)
  show ?thesis
  proof (cases "?u \<le> 1024")
    case True
    have D: "pow2 1024 = of_int (2 ^ nat (1024 - ?u)) * pow2 ?u"
    proof -
      have "pow2 1024 = 2 powi ((1024 - ?u) + ?u)" by (simp add: pow2_powi)
      also have "\<dots> = 2 powi (1024 - ?u) * 2 powi ?u"
        by (rule power_int_add) simp
      also have "2 powi (1024 - ?u) = (of_int (2 ^ nat (1024 - ?u)) :: rat)"
        using True by (simp add: power_int_def)
      finally show ?thesis by (simp add: pow2_powi)
    qed
    show ?thesis
      using round_magnitude_ge [of "2 ^ nat (1024 - ?u)" a] assms by (simp only: D [symmetric])
  next
    case False
    have "pow2 ?u \<le> pow2 (ilog2 a)"
      unfolding pow2_powi U by (rule power_int_increasing) simp_all
    also have "\<dots> \<le> a" by (rule ilog2_lower(2) [OF one])
    finally have "of_int 1 * pow2 ?u \<le> a" by simp
    from round_magnitude_ge [OF this] have "pow2 ?u \<le> round_magnitude a" by simp
    moreover have "pow2 1024 \<le> pow2 ?u"
      unfolding pow2_powi using False by (intro power_int_increasing) simp_all
    ultimately show ?thesis by linarith
  qed
qed

lemma json_number_overflow: "pow2 1024 \<le> x \<Longrightarrow> json_number x = PosInf"
proof -
  assume A: "pow2 1024 \<le> x"
  have P: "0 < pow2 1024" by (simp add: pow2_powi)
  with A have X: "0 < x" by linarith
  then have "\<bar>x\<bar> = x" by simp
  with round_magnitude_overflow [of x] A have "pow2 1024 \<le> round_magnitude \<bar>x\<bar>" by simp
  then show ?thesis
    using X by (simp add: json_number_def round_double_def)
qed

lemma json_infinity: "json_number (10 ^ 400) = PosInf"
  by (rule json_number_overflow) (simp add: pow2_def)

lemma floor_rat_numeral: "\<lfloor>(numeral a :: rat) / numeral b\<rfloor> = numeral a div numeral b"
  by (metis floor_divide_of_int_eq of_int_numeral)

lemma ceiling_rat_numeral: "\<lceil>(numeral a :: rat) / numeral b\<rceil> = - (- numeral a div numeral b)"
  by (metis ceiling_divide_eq_div of_int_numeral)

lemmas number_eval = json_number_def round_double_def round_magnitude_def ulp_exponent_def ilog2_def
  bitlen.simps pow2_def round_half_even_def num_mult_def floor_rat_numeral ceiling_rat_numeral

lemma paise_examples:
  "num_lt (json_number (1 / 2)) (Fin 1)"
  "json_number 10 = Fin 10"
  "Math_round (num_mult (json_number 10) (Fin 100)) = Fin 1000"
  "json_number (2001 / 200) = Fin (5632314283980227 / 562949953421312)"
  "Math_round (num_mult (json_number (2001 / 200)) (Fin 100)) = Fin 1001"
  "json_number (1 / 2) = Fin (1 / 2)"
  "num_mult (json_number (1 / 2)) (Fin 100) = Fin 50"
  by (simp_all add: number_eval)

section \<open>Properties of payment orders\<close>

lemma create_order_rejected:
  assumes "(\<forall>a. field req ''amount'' \<noteq> Num a) \<or> field req ''amount'' = Num NaN
     \<or> (\<exists>a. field req ''amount'' = Num a \<and> num_lt a (Fin 1))"
  shows "create_order_part_000 req w = (send 400 (Obj [(''error'', Str ''Invalid amount for payment.'')]), w)"
    and "create_order_part_001 req w = (send 400 (Obj [(''error'', Str ''Invalid amount for payment.'')]), w)"
  using assms
  by (cases "field req ''amount''"; auto simp: create_order_part_000_def create_order_part_001_def)+

lemma status_send_traced: "status_send (w\<lparr>calls := c\<rparr>) s b = status_send w s b"
  by (cases s rule: truthy.cases) (auto simp: status_send_def)

lemma create_order_part_000_accepted:
  assumes "field req ''amount'' = Num a" and "\<not> num_lt a (Fin 1)" and "a \<noteq> NaN"
  shows "create_order_part_000 req w =
     (case orders_create w (order_options (Math_round (num_mult a (Fin 100))) w) of
        Inr order \<Rightarrow>
          if \<not> truthy order then send 500 (Str ''Error creating order'') else send 200 order
      | Inl razorpayError \<Rightarrow>
          (case get_prop razorpayError ''statusCode'' of
             Inl e \<Rightarrow> send 500 (Str ''An unexpected error occurred on the server.'')
           | Inr statusCode \<Rightarrow>
               (case status_send w (if truthy statusCode then statusCode else Num (Fin 500))
                       (field_of razorpayError ''error'') of
                  Inl e \<Rightarrow> send 500 (Str ''An unexpected error occurred on the server.'')
                | Inr r \<Rightarrow> r)),
      w\<lparr>calls := calls w @ [OrdersCreate (order_options (Math_round (num_mult a (Fin 100))) w)]\<rparr>)"
proof -
  have X: "get_prop v ''statusCode'' = Inr s \<Longrightarrow>
      (case get_prop v ''error'' of Inl e \<Rightarrow> y | Inr error \<Rightarrow> f error) = f (field_of v ''error'')" for v s y f
    by (cases v) (simp_all add: field_of_def)
  show ?thesis
    using assms
    by (auto simp: create_order_part_000_def orders_create_call_def traced_def Let_def X
        status_send_traced split: sum.splits)
qed

lemma status_send_usable:
  assumes "100 \<le> k" and "k \<le> 999" and "plain_body b"
  shows "status_send w (Num (Fin (of_int k))) b = Inr \<lparr>status = Num (Fin (of_int k)), body = b\<rparr>"
  using assms by (simp add: status_send_def)

lemma status_send_500:
  "plain_body b \<Longrightarrow> status_send w (Num (Fin 500)) b = Inr \<lparr>status = Num (Fin 500), body = b\<rparr>"
  using status_send_usable [of 500 b w] by simp

lemma status_send_refused:
  assumes "k < 100 \<or> 999 < k" and "- 2147483648 \<le> k" and "k < 2147483648" and "plain_body b"
  shows "status_send w (Num (Fin (of_int k))) b = Inl RangeError"
proof -
  have "\<not> (100 \<le> (of_int k :: rat) \<and> (of_int k :: rat) \<le> 999)"
    using assms(1) by (metis of_int_le_iff of_int_numeral not_le)
  moreover have "- 2147483648 \<le> (of_int k :: rat)" "(of_int k :: rat) < 2147483648"
    using assms(2,3) by (metis of_int_le_iff of_int_numeral of_int_minus,
        metis of_int_less_iff of_int_numeral)
  ultimately show ?thesis
    using assms(4) by (simp add: status_send_def)
qed

lemma create_order_part_001_accepted:
  assumes "field req ''amount'' = Num a" and "\<not> num_lt a (Fin 1)" and "a \<noteq> NaN"
  shows "create_order_part_001 req w =
     (case orders_create w (order_options (Math_round (num_mult a (Fin 100))) w) of
        Inr order \<Rightarrow>
          if \<not> truthy order then send 500 (Str ''Error creating order'') else send 200 order
      | Inl error \<Rightarrow> send 500 (Str ''Something went wrong with Razorpay''),
      w\<lparr>calls := calls w @ [OrdersCreate (order_options (Math_round (num_mult a (Fin 100))) w)]\<rparr>)"
  using assms
  by (auto simp: create_order_part_001_def orders_create_call_def traced_def Let_def
      split: sum.splits)

lemma create_order_index_converted:
  assumes "Number J (field req ''amount'') = Inr n"
  shows "create_order_index J req w =
     (case orders_create w (order_options (num_mult n (Fin 100)) w) of
        Inr order \<Rightarrow>
          if \<not> truthy order then send 500 (Str ''Error creating order'') else send 200 order
      | Inl error \<Rightarrow> send 500 (Str ''Something went wrong''),
      w\<lparr>calls := calls w @ [OrdersCreate (order_options (num_mult n (Fin 100)) w)]\<rparr>)"
  using assms
  by (auto simp: create_order_index_def orders_create_call_def traced_def Let_def
      split: sum.splits)

text \<open>
  C3, as amended. The create-order handlers of \<open>src/unnamed/part_000\<close> and
  \<open>src/unnamed/part_001\<close> answer 400, without a capability call, when the amount is not of
  type number, is NaN or is below 1. A finite amount of at least 1 reaches the payment
  capability exactly once, as \<open>Math.round(amount * 100)\<close> in binary64 arithmetic: 0.5 is
  rejected, 10 gives 1000 and 10.005 gives 1001.
\<close>

theorem create_order_amount:
  "((\<forall>a. field req ''amount'' \<noteq> Num a) \<or> field req ''amount'' = Num NaN
      \<or> (\<exists>a. field req ''amount'' = Num a \<and> num_lt a (Fin 1)) \<longrightarrow>
      create_order_part_000 req w = (send 400 (Obj [(''error'', Str ''Invalid amount for payment.'')]), w)
      \<and> create_order_part_001 req w = (send 400 (Obj [(''error'', Str ''Invalid amount for payment.'')]), w))
   \<and> (\<forall>x. field req ''amount'' = Num (Fin x) \<and> 1 \<le> x \<longrightarrow>
        calls (snd (create_order_part_000 req w)) =
          calls w @ [OrdersCreate (order_options (Math_round (num_mult (Fin x) (Fin 100))) w)]
        \<and> calls (snd (create_order_part_001 req w)) =
          calls w @ [OrdersCreate (order_options (Math_round (num_mult (Fin x) (Fin 100))) w)])
   \<and> num_lt (json_number (1 / 2)) (Fin 1)
   \<and> Math_round (num_mult (json_number 10) (Fin 100)) = Fin 1000
   \<and> Math_round (num_mult (json_number (2001 / 200)) (Fin 100)) = Fin 1001"
proof -
  have A: "(\<forall>a. field req ''amount'' \<noteq> Num a) \<or> field req ''amount'' = Num NaN
      \<or> (\<exists>a. field req ''amount'' = Num a \<and> num_lt a (Fin 1)) \<longrightarrow>
      create_order_part_000 req w = (send 400 (Obj [(''error'', Str ''Invalid amount for payment.'')]), w)
      \<and> create_order_part_001 req w = (send 400 (Obj [(''error'', Str ''Invalid amount for payment.'')]), w)"
    using create_order_rejected [of req w] by blast
  have B: "\<forall>x. field req ''amount'' = Num (Fin x) \<and> 1 \<le> x \<longrightarrow>
        calls (snd (create_order_part_000 req w)) =
          calls w @ [OrdersCreate (order_options (Math_round (num_mult (Fin x) (Fin 100))) w)]
        \<and> calls (snd (create_order_part_001 req w)) =
          calls w @ [OrdersCreate (order_options (Math_round (num_mult (Fin x) (Fin 100))) w)]"
    by (simp add: create_order_part_000_accepted create_order_part_001_accepted)
  from A B paise_examples(1,3,5) show ?thesis
    by (simp only: simp_thms)
qed

theorem create_order_amount_witness:
  "field [(''amount'', Num (json_number (1 / 2)))] ''amount'' = Num (json_number (1 / 2))
   \<and> num_lt (json_number (1 / 2)) (Fin 1)
   \<and> create_order_part_000 [(''amount'', Num (json_number (1 / 2)))] paying_world =
        (send 400 (Obj [(''error'', Str ''Invalid amount for payment.'')]), paying_world)
   \<and> json_number (2001 / 200) = Fin (5632314283980227 / 562949953421312)
   \<and> (1::rat) \<le> 5632314283980227 / 562949953421312
   \<and> calls (snd (create_order_part_000 [(''amount'', Num (json_number (2001 / 200)))] paying_world)) =
        [OrdersCreate (order_options (Fin 1001) paying_world)]
   \<and> json_number 10 = Fin 10
   \<and> calls (snd (create_order_part_001 [(''amount'', Num (json_number 10))] paying_world)) =
        [OrdersCreate (order_options (Fin 1000) paying_world)]"
proof -
  have F: "field [(''amount'', v)] ''amount'' = v" for v
    by (simp add: field_def)
  have E: "calls paying_world = []"
    by (simp add: paying_world_def example_world_def)
  have H1: "(\<forall>a. field [(''amount'', Num (json_number (1 / 2)))] ''amount'' \<noteq> Num a)
      \<or> field [(''amount'', Num (json_number (1 / 2)))] ''amount'' = Num NaN
      \<or> (\<exists>a. field [(''amount'', Num (json_number (1 / 2)))] ''amount'' = Num a \<and> num_lt a (Fin 1))"
    using paise_examples(1) by (simp add: F)
  note T1 = create_order_amount [of "[(''amount'', Num (json_number (1 / 2)))]" paying_world,
      THEN conjunct1, THEN mp, OF H1, THEN conjunct1]
  have H2: "field [(''amount'', Num (json_number (2001 / 200)))] ''amount''
        = Num (Fin (5632314283980227 / 562949953421312))
      \<and> (1::rat) \<le> 5632314283980227 / 562949953421312"
    by (simp add: F paise_examples(4))
  note T2 = create_order_amount [of "[(''amount'', Num (json_number (2001 / 200)))]" paying_world,
      THEN conjunct2, THEN conjunct1, THEN spec, THEN mp, OF H2, THEN conjunct1]
  have H3: "field [(''amount'', Num (json_number 10))] ''amount'' = Num (Fin 10) \<and> (1::rat) \<le> 10"
    by (simp add: F paise_examples(2))
  note T3 = create_order_amount [of "[(''amount'', Num (json_number 10))]" paying_world,
      THEN conjunct2, THEN conjunct1, THEN spec, THEN mp, OF H3, THEN conjunct2]
  have M1: "Math_round (num_mult (Fin (5632314283980227 / 562949953421312)) (Fin 100)) = Fin 1001"
    using paise_examples(5) by (simp only: paise_examples(4))
  have M2: "Math_round (num_mult (Fin 10) (Fin 100)) = Fin 1000"
    using paise_examples(3) by (simp only: paise_examples(2))
  have R2: "calls (snd (create_order_part_000 [(''amount'', Num (json_number (2001 / 200)))] paying_world)) =
        [OrdersCreate (order_options (Fin 1001) paying_world)]"
    using T2 by (simp only: M1 E append_Nil)
  have R3: "calls (snd (create_order_part_001 [(''amount'', Num (json_number 10))] paying_world)) =
        [OrdersCreate (order_options (Fin 1000) paying_world)]"
    using T3 by (simp only: M2 E append_Nil)
  have L: "(1::rat) \<le> 5632314283980227 / 562949953421312"
    by simp
  show ?thesis
    using T1 R2 R3 L paise_examples(1,2,4) by (simp only: F simp_thms)
qed

theorem create_order_accepts_infinity:
  "json_number (10 ^ 400) = PosInf
   \<and> \<not> num_lt (json_number (10 ^ 400)) (Fin 1) \<and> json_number (10 ^ 400) \<noteq> NaN
   \<and> create_order_part_000 [(''amount'', Num (json_number (10 ^ 400)))] paying_world =
        (send 200 (Obj [(''id'', Str ''order_1''), (''status'', Str ''created'')]),
         paying_world\<lparr>calls := [OrdersCreate (order_options PosInf paying_world)]\<rparr>)
   \<and> create_order_index example_js [(''amount'', Num (json_number (1 / 2)))] paying_world =
        (send 200 (Obj [(''id'', Str ''order_1''), (''status'', Str ''created'')]),
         paying_world\<lparr>calls := [OrdersCreate (order_options (Fin 50) paying_world)]\<rparr>)"
proof -
  have F: "field [(''amount'', v)] ''amount'' = v" for v
    by (simp add: field_def)
  have E: "calls paying_world = []"
      "orders_create paying_world x = Inr (Obj [(''id'', Str ''order_1''), (''status'', Str ''created'')])" for x
    by (simp_all add: paying_world_def example_world_def)
  have M: "Math_round (num_mult PosInf (Fin 100)) = PosInf"
    by (simp add: num_mult_def)
  have N: "num_mult (Fin (1 / 2)) (Fin 100) = Fin 50"
    using paise_examples(7) by (simp add: paise_examples(6))
  have A: "create_order_part_000 [(''amount'', Num PosInf)] paying_world =
        (send 200 (Obj [(''id'', Str ''order_1''), (''status'', Str ''created'')]),
         paying_world\<lparr>calls := [OrdersCreate (order_options PosInf paying_world)]\<rparr>)"
    using create_order_part_000_accepted [of "[(''amount'', Num PosInf)]" PosInf paying_world]
    by (simp add: F E M)
  have B: "create_order_index example_js [(''amount'', Num (Fin (1 / 2)))] paying_world =
        (send 200 (Obj [(''id'', Str ''order_1''), (''status'', Str ''created'')]),
         paying_world\<lparr>calls := [OrdersCreate (order_options (Fin 50) paying_world)]\<rparr>)"
    using create_order_index_converted [of example_js "[(''amount'', Num (Fin (1 / 2)))]" "Fin (1 / 2)" paying_world]
    by (simp add: F E N)
  show ?thesis unfolding json_infinity paise_examples(6) using A B by simp
qed

lemma create_order_part_000_failsafe:
  assumes "field req ''amount'' = Num a" and "\<not> num_lt a (Fin 1)" and "a \<noteq> NaN"
    and "orders_create w (order_options (Math_round (num_mult a (Fin 100))) w) = Inl razorpayError"
    and "get_prop razorpayError ''statusCode'' = Inr (Num (Fin (of_int k)))"
    and "k \<noteq> 0" and "k < 100 \<or> 999 < k" and "- 2147483648 \<le> k" and "k < 2147483648"
    and "plain_body (field_of razorpayError ''error'')"
  shows "fst (create_order_part_000 req w) =
           send 500 (Str ''An unexpected error occurred on the server.'')"
  using assms(4-6) status_send_refused [OF assms(7-10)]
  by (simp add: create_order_part_000_accepted [OF assms(1-3)])

text \<open>
  C4, as amended. When the payment capability rejects with an error object whose
  \<open>error\<close> payload is an object, an array or a string, the handler of
  \<open>src/unnamed/part_000\<close> answers with the \<open>statusCode\<close> of the error when that is an
  integer from 100 to 999, and with 500 when the \<open>statusCode\<close> is falsy, in both cases
  with the payload as the body. When the capability resolves with an order, every variant
  of the handler returns the order unmodified with status 200.
\<close>

theorem create_order_capability_result:
  "(\<forall>a order. field req ''amount'' = Num a \<and> \<not> num_lt a (Fin 1) \<and> a \<noteq> NaN
        \<and> orders_create w (order_options (Math_round (num_mult a (Fin 100))) w) = Inr order
        \<and> truthy order \<longrightarrow>
        fst (create_order_part_000 req w) = send 200 order
        \<and> fst (create_order_part_001 req w) = send 200 order)
   \<and> (\<forall>n order. Number J (field req ''amount'') = Inr n
        \<and> orders_create w (order_options (num_mult n (Fin 100)) w) = Inr order
        \<and> truthy order \<longrightarrow>
        fst (create_order_index J req w) = send 200 order)
   \<and> (\<forall>a razorpayError k. field req ''amount'' = Num a \<and> \<not> num_lt a (Fin 1) \<and> a \<noteq> NaN
        \<and> orders_create w (order_options (Math_round (num_mult a (Fin 100))) w) = Inl razorpayError
        \<and> get_prop razorpayError ''statusCode'' = Inr (Num (Fin (of_int k)))
        \<and> 100 \<le> k \<and> k \<le> 999 \<and> plain_body (field_of razorpayError ''error'') \<longrightarrow>
        fst (create_order_part_000 req w) =
          \<lparr>status = Num (Fin (of_int k)), body = field_of razorpayError ''error''\<rparr>)
   \<and> (\<forall>a razorpayError statusCode. field req ''amount'' = Num a \<and> \<not> num_lt a (Fin 1) \<and> a \<noteq> NaN
        \<and> orders_create w (order_options (Math_round (num_mult a (Fin 100))) w) = Inl razorpayError
        \<and> get_prop razorpayError ''statusCode'' = Inr statusCode
        \<and> \<not> truthy statusCode \<and> plain_body (field_of razorpayError ''error'') \<longrightarrow>
        fst (create_order_part_000 req w) =
          \<lparr>status = Num (Fin 500), body = field_of razorpayError ''error''\<rparr>)"
proof -
  have A: "\<forall>a order. field req ''amount'' = Num a \<and> \<not> num_lt a (Fin 1) \<and> a \<noteq> NaN
        \<and> orders_create w (order_options (Math_round (num_mult a (Fin 100))) w) = Inr order
        \<and> truthy order \<longrightarrow>
        fst (create_order_part_000 req w) = send 200 order
        \<and> fst (create_order_part_001 req w) = send 200 order"
    by (simp add: create_order_part_000_accepted create_order_part_001_accepted)
  have B: "\<forall>n order. Number J (field req ''amount'') = Inr n
        \<and> orders_create w (order_options (num_mult n (Fin 100)) w) = Inr order
        \<and> truthy order \<longrightarrow>
        fst (create_order_index J req w) = send 200 order"
    by (simp add: create_order_index_converted)
  have C: "\<forall>a razorpayError k. field req ''amount'' = Num a \<and> \<not> num_lt a (Fin 1) \<and> a \<noteq> NaN
        \<and> orders_create w (order_options (Math_round (num_mult a (Fin 100))) w) = Inl razorpayError
        \<and> get_prop razorpayError ''statusCode'' = Inr (Num (Fin (of_int k)))
        \<and> 100 \<le> k \<and> k \<le> 999 \<and> plain_body (field_of razorpayError ''error'') \<longrightarrow>
        fst (create_order_part_000 req w) =
          \<lparr>status = Num (Fin (of_int k)), body = field_of razorpayError ''error''\<rparr>"
  proof (intro allI impI)
    fix a razorpayError k
    assume H: "field req ''amount'' = Num a \<and> \<not> num_lt a (Fin 1) \<and> a \<noteq> NaN
        \<and> orders_create w (order_options (Math_round (num_mult a (Fin 100))) w) = Inl razorpayError
        \<and> get_prop razorpayError ''statusCode'' = Inr (Num (Fin (of_int k)))
        \<and> 100 \<le> k \<and> k \<le> 999 \<and> plain_body (field_of razorpayError ''error'')"
    then have K: "k \<noteq> 0" by auto
    from H have S: "status_send w (Num (Fin (of_int k))) (field_of razorpayError ''error'') =
        Inr \<lparr>status = Num (Fin (of_int k)), body = field_of razorpayError ''error''\<rparr>"
      by (simp add: status_send_usable)
    from H K S show "fst (create_order_part_000 req w) =
          \<lparr>status = Num (Fin (of_int k)), body = field_of razorpayError ''error''\<rparr>"
      by (simp add: create_order_part_000_accepted)
  qed
  have D: "\<forall>a razorpayError statusCode. field req ''amount'' = Num a \<and> \<not> num_lt a (Fin 1) \<and> a \<noteq> NaN
        \<and> orders_create w (order_options (Math_round (num_mult a (Fin 100))) w) = Inl razorpayError
        \<and> get_prop razorpayError ''statusCode'' = Inr statusCode
        \<and> \<not> truthy statusCode \<and> plain_body (field_of razorpayError ''error'') \<longrightarrow>
        fst (create_order_part_000 req w) =
          \<lparr>status = Num (Fin 500), body = field_of razorpayError ''error''\<rparr>"
    by (simp add: create_order_part_000_accepted status_send_500)
  show ?thesis by (rule conjI [OF A conjI [OF B conjI [OF C D]]])
qed

theorem create_order_capability_result_witness:
  "field [(''amount'', Num (Fin 10))] ''amount'' = Num (Fin 10)
   \<and> \<not> num_lt (Fin 10) (Fin 1) \<and> Fin 10 \<noteq> NaN
   \<and> orders_create example_world (order_options (Math_round (num_mult (Fin 10) (Fin 100))) example_world) =
        Inl (Obj [(''statusCode'', Num (Fin 400)), (''error'', Obj [(''code'', Str ''BAD_REQUEST_ERROR'')])])
   \<and> get_prop (Obj [(''statusCode'', Num (Fin 400)), (''error'', Obj [(''code'', Str ''BAD_REQUEST_ERROR'')])])
        ''statusCode'' = Inr (Num (Fin (of_int 400)))
   \<and> (100::int) \<le> 400 \<and> (400::int) \<le> 999
   \<and> plain_body (Obj [(''code'', Str ''BAD_REQUEST_ERROR'')])
   \<and> fst (create_order_part_000 [(''amount'', Num (Fin 10))] example_world) =
        \<lparr>status = Num (Fin 400), body = Obj [(''code'', Str ''BAD_REQUEST_ERROR'')]\<rparr>
   \<and> orders_create paying_world (order_options (Math_round (num_mult (Fin 10) (Fin 100))) paying_world) =
        Inr (Obj [(''id'', Str ''order_1''), (''status'', Str ''created'')])
   \<and> truthy (Obj [(''id'', Str ''order_1''), (''status'', Str ''created'')])
   \<and> fst (create_order_part_000 [(''amount'', Num (Fin 10))] paying_world) =
        send 200 (Obj [(''id'', Str ''order_1''), (''status'', Str ''created'')])
   \<and> Number example_js (field [(''amount'', Num (Fin (1 / 2)))] ''amount'') = Inr (Fin (1 / 2))
   \<and> fst (create_order_index example_js [(''amount'', Num (Fin (1 / 2)))] paying_world) =
        send 200 (Obj [(''id'', Str ''order_1''), (''status'', Str ''created'')])"
proof -
  let ?err = "Obj [(''statusCode'', Num (Fin 400)), (''error'', Obj [(''code'', Str ''BAD_REQUEST_ERROR'')])]"
  let ?order = "Obj [(''id'', Str ''order_1''), (''status'', Str ''created'')]"
  have F: "field [(''amount'', v)] ''amount'' = v" for v
    by (simp add: field_def)
  have V: "\<not> num_lt (Fin 10) (Fin 1)" "Fin 10 \<noteq> NaN"
    by simp_all
  have R: "orders_create example_world x = Inl ?err" for x
    by (simp add: example_world_def)
  have P: "orders_create paying_world x = Inr ?order" for x
    by (simp add: paying_world_def)
  have S: "get_prop ?err ''statusCode'' = Inr (Num (Fin (of_int 400)))"
    by (simp add: field_def)
  have B: "field_of ?err ''error'' = Obj [(''code'', Str ''BAD_REQUEST_ERROR'')]"
    by (simp add: field_of_def field_def)
  have PB: "plain_body (field_of ?err ''error'')"
    by (simp add: B plain_body_def)
  have T: "truthy ?order" by simp
  have N: "Number example_js (field [(''amount'', Num (Fin (1 / 2)))] ''amount'') = Inr (Fin (1 / 2))"
    by (simp add: F)
  have H1: "field [(''amount'', Num (Fin 10))] ''amount'' = Num (Fin 10) \<and> \<not> num_lt (Fin 10) (Fin 1)
      \<and> Fin 10 \<noteq> NaN
      \<and> orders_create example_world
           (order_options (Math_round (num_mult (Fin 10) (Fin 100))) example_world) = Inl ?err
      \<and> get_prop ?err ''statusCode'' = Inr (Num (Fin (of_int 400)))
      \<and> (100::int) \<le> 400 \<and> (400::int) \<le> 999 \<and> plain_body (field_of ?err ''error'')"
    using F V R S PB by simp
  note T1 = create_order_capability_result [of "[(''amount'', Num (Fin 10))]" example_world example_js,
      THEN conjunct2, THEN conjunct2, THEN conjunct1, THEN spec, THEN spec, THEN spec, THEN mp, OF H1]
  have H2: "field [(''amount'', Num (Fin 10))] ''amount'' = Num (Fin 10) \<and> \<not> num_lt (Fin 10) (Fin 1)
      \<and> Fin 10 \<noteq> NaN
      \<and> orders_create paying_world
           (order_options (Math_round (num_mult (Fin 10) (Fin 100))) paying_world) = Inr ?order
      \<and> truthy ?order"
    using F V P by simp
  note T2 = create_order_capability_result [of "[(''amount'', Num (Fin 10))]" paying_world example_js,
      THEN conjunct1, THEN spec, THEN spec, THEN mp, OF H2, THEN conjunct1]
  have H3: "Number example_js (field [(''amount'', Num (Fin (1 / 2)))] ''amount'') = Inr (Fin (1 / 2))
      \<and> orders_create paying_world (order_options (num_mult (Fin (1 / 2)) (Fin 100)) paying_world) = Inr ?order
      \<and> truthy ?order"
    using N P by simp
  note T3 = create_order_capability_result [of "[(''amount'', Num (Fin (1 / 2)))]" paying_world example_js,
      THEN conjunct2, THEN conjunct1, THEN spec, THEN spec, THEN mp, OF H3]
  have PB': "plain_body (Obj [(''code'', Str ''BAD_REQUEST_ERROR'')])"
    by (simp add: plain_body_def)
  show ?thesis
    using F V R P S T N PB' T1 T2 T3 by (simp add: B)
qed

theorem create_order_error_not_passed_on:
  "orders_create example_world (order_options (num_mult (Fin 10) (Fin 100)) example_world) =
        Inl (Obj [(''statusCode'', Num (Fin 400)), (''error'', Obj [(''code'', Str ''BAD_REQUEST_ERROR'')])])
   \<and> fst (create_order_index example_js [(''amount'', Num (Fin 10))] example_world) =
        send 500 (Str ''Something went wrong'')
   \<and> orders_create example_world (order_options (Math_round (num_mult (Fin 10) (Fin 100))) example_world) =
        Inl (Obj [(''statusCode'', Num (Fin 400)), (''error'', Obj [(''code'', Str ''BAD_REQUEST_ERROR'')])])
   \<and> fst (create_order_part_001 [(''amount'', Num (Fin 10))] example_world) =
        send 500 (Str ''Something went wrong with Razorpay'')
   \<and> status (send 500 (Str ''Something went wrong'')) \<noteq> Num (Fin 400)"
proof -
  have F: "field [(''amount'', Num (Fin 10))] ''amount'' = Num (Fin 10)"
    by (simp add: field_def)
  have R: "orders_create example_world x =
      Inl (Obj [(''statusCode'', Num (Fin 400)), (''error'', Obj [(''code'', Str ''BAD_REQUEST_ERROR'')])])" for x
    by (simp add: example_world_def)
  have A: "fst (create_order_index example_js [(''amount'', Num (Fin 10))] example_world) =
        send 500 (Str ''Something went wrong'')"
    using create_order_index_converted [of example_js "[(''amount'', Num (Fin 10))]" "Fin 10" example_world]
    by (simp add: F R)
  have B: "fst (create_order_part_001 [(''amount'', Num (Fin 10))] example_world) =
        send 500 (Str ''Something went wrong with Razorpay'')"
    using create_order_part_001_accepted [of "[(''amount'', Num (Fin 10))]" "Fin 10" example_world]
    by (simp add: F R)
  show ?thesis
    using A B by (simp add: R send_def)
qed

section \<open>Properties of the booking list\<close>

lemma mset_sort_insert: "mset (sort_insert cmp a xs) = add_mset a (mset xs)"
  by (induction xs) auto

lemma mset_js_sort: "mset (js_sort cmp xs) = mset xs"
  by (induction xs) (auto simp: js_sort_def mset_sort_insert)

lemma set_sort_insert: "set (sort_insert cmp a xs) = insert a (set xs)"
  by (induction xs) auto

lemma set_js_sort: "set (js_sort cmp xs) = set xs"
  by (induction xs) (auto simp: js_sort_def set_sort_insert)

lemma compare_bookings_valid:
  assumes "bookingDate J a \<noteq> None" and "bookingDate J b \<noteq> None"
  shows "compare_bookings J a b \<le> 0 \<longleftrightarrow> not_older J a b"
    and "\<not> compare_bookings J a b \<le> 0 \<Longrightarrow> not_older J b a"
  using assms by (auto simp: compare_bookings_def not_older_def)

lemma not_older_trans:
  "not_older J a b \<Longrightarrow> not_older J b c \<Longrightarrow> not_older J a c"
  by (auto simp: not_older_def split: option.splits)

lemma sorted_sort_insert:
  assumes "\<forall>x \<in> set (a # xs). bookingDate J x \<noteq> None"
    and "sorted_wrt (not_older J) xs"
  shows "sorted_wrt (not_older J) (sort_insert (compare_bookings J) a xs)"
  using assms
proof (induction xs)
  case Nil
  then show ?case by simp
next
  case (Cons b bs)
  show ?case
  proof (cases "compare_bookings J a b \<le> 0")
    case True
    then have ab: "not_older J a b"
      using Cons.prems(1) by (simp add: compare_bookings_valid)
    have "\<forall>y \<in> set bs. not_older J a y"
      using Cons.prems(2) ab by (auto intro: not_older_trans)
    then show ?thesis
      using True ab Cons.prems(2) by simp
  next
    case False
    then have ba: "not_older J b a"
      using Cons.prems(1) by (simp add: compare_bookings_valid)
    have "sorted_wrt (not_older J) (sort_insert (compare_bookings J) a bs)"
      using Cons.IH Cons.prems by simp
    then show ?thesis
      using False ba Cons.prems(2) by (auto simp: set_sort_insert)
  qed
qed

lemma sorted_js_sort:
  "\<forall>x \<in> set xs. bookingDate J x \<noteq> None \<Longrightarrow>
   sorted_wrt (not_older J) (js_sort (compare_bookings J) xs)"
proof (induction xs)
  case Nil
  then show ?case by (simp add: js_sort_def)
next
  case (Cons a xs)
  have "sorted_wrt (not_older J) (sort_insert (compare_bookings J) a (js_sort (compare_bookings J) xs))"
    using Cons by (intro sorted_sort_insert) (simp_all add: set_js_sort)
  then show ?case by (simp add: js_sort_def)
qed

lemma clientId_field: "map_of d ''clientId'' = Some (Str u) \<longleftrightarrow> field d ''clientId'' = Str u"
  by (auto simp: field_def split: option.splits)

lemma my_bookings_served:
  assumes "\<not> db_rejects w (DbWhere ''bookings'' ''clientId'' (Str userId))"
  shows "fst (my_bookings J userId w) =
     send 200 (Arr (js_sort (compare_bookings J)
       (map doc_view (filter (\<lambda>doc. field (snd doc) ''clientId'' = Str userId) (store w ''bookings'')))))"
  using assms
  by (simp add: my_bookings_def db_where_def Let_def clientId_field js_sort_def)

text \<open>
  C8. For every \<open>userId\<close>, when the database serves the query, my-bookings answers 200
  with exactly the bookings whose \<open>clientId\<close> is that \<open>userId\<close>, each once, ordered by
  \<open>bookingDate\<close> with the newest first (the booking dates being valid dates); when none
  matches, the answer is the empty array.
\<close>

theorem my_bookings_newest_first:
  assumes "\<not> db_rejects w (DbWhere ''bookings'' ''clientId'' (Str userId))"
  shows "\<exists>xs. fst (my_bookings J userId w) = send 200 (Arr xs)
     \<and> mset xs = mset (map doc_view
          (filter (\<lambda>doc. field (snd doc) ''clientId'' = Str userId) (store w ''bookings'')))
     \<and> ((\<forall>x \<in> set xs. bookingDate J x \<noteq> None) \<longrightarrow> sorted_wrt (not_older J) xs)
     \<and> ((\<forall>doc \<in> set (store w ''bookings''). field (snd doc) ''clientId'' \<noteq> Str userId) \<longrightarrow> xs = [])"
proof -
  let ?found = "map doc_view (filter (\<lambda>doc. field (snd doc) ''clientId'' = Str userId) (store w ''bookings''))"
  let ?xs = "js_sort (compare_bookings J) ?found"
  have 1: "fst (my_bookings J userId w) = send 200 (Arr ?xs)"
    using assms by (rule my_bookings_served)
  have 2: "mset ?xs = mset ?found"
    by (rule mset_js_sort)
  have 3: "(\<forall>x \<in> set ?xs. bookingDate J x \<noteq> None) \<longrightarrow> sorted_wrt (not_older J) ?xs"
    using sorted_js_sort [of ?found J] by (simp only: set_js_sort) blast
  have 4: "(\<forall>doc \<in> set (store w ''bookings''). field (snd doc) ''clientId'' \<noteq> Str userId) \<longrightarrow> ?xs = []"
    by (auto simp: js_sort_def filter_empty_conv)
  from 1 2 3 4 show ?thesis by blast
qed

lemma example_booking_view:
  "doc_view (i, example_booking c s d) = Obj ((''id'', Str i) # example_booking c s d)"
  by (simp add: doc_view_def spread_def example_booking_def)

lemma example_booking_fields:
  "field (example_booking c s d) ''clientId'' = Str c"
  "bookingDate J (doc_view (i, example_booking c s d)) = DateValue J (Str d)"
  unfolding example_booking_view
  by (simp_all add: bookingDate_def field_of_def field_def example_booking_def)

theorem my_bookings_newest_first_witness:
  "\<not> db_rejects example_world (DbWhere ''bookings'' ''clientId'' (Str ''u1''))
   \<and> fst (my_bookings example_js ''u1'' example_world) =
        send 200 (Arr [doc_view (''b3'', example_booking ''u1'' ''Cancelled'' ''2024-03-01T00:00:00.000Z''),
                       doc_view (''b1'', example_booking ''u1'' ''Confirmed'' ''2024-01-01T00:00:00.000Z'')])
   \<and> bookingDate example_js (doc_view (''b3'', example_booking ''u1'' ''Cancelled'' ''2024-03-01T00:00:00.000Z''))
        = Some 1709251200000
   \<and> bookingDate example_js (doc_view (''b1'', example_booking ''u1'' ''Confirmed'' ''2024-01-01T00:00:00.000Z''))
        = Some 1704067200000
   \<and> not_older example_js
        (doc_view (''b3'', example_booking ''u1'' ''Cancelled'' ''2024-03-01T00:00:00.000Z''))
        (doc_view (''b1'', example_booking ''u1'' ''Confirmed'' ''2024-01-01T00:00:00.000Z''))"
proof -
  let ?v3 = "doc_view (''b3'', example_booking ''u1'' ''Cancelled'' ''2024-03-01T00:00:00.000Z'')"
  let ?v1 = "doc_view (''b1'', example_booking ''u1'' ''Confirmed'' ''2024-01-01T00:00:00.000Z'')"
  have H: "\<not> db_rejects example_world (DbWhere ''bookings'' ''clientId'' (Str ''u1''))"
    by (rule example_add_ok)
  have D3: "bookingDate example_js ?v3 = Some 1709251200000"
    by (simp add: example_booking_fields example_js_def)
  have D1: "bookingDate example_js ?v1 = Some 1704067200000"
    by (simp add: example_booking_fields example_js_def)
  have S: "store example_world ''bookings'' =
      [(''b1'', example_booking ''u1'' ''Confirmed'' ''2024-01-01T00:00:00.000Z''),
       (''b2'', example_booking ''u2'' ''Confirmed'' ''2024-01-01T00:00:00.000Z''),
       (''b3'', example_booking ''u1'' ''Cancelled'' ''2024-03-01T00:00:00.000Z'')]"
    by (simp add: example_world_def)
  have C: "\<not> compare_bookings example_js ?v1 ?v3 \<le> 0"
    by (simp add: compare_bookings_def D1 D3)
  have E: "fst (my_bookings example_js ''u1'' example_world) = send 200 (Arr [?v3, ?v1])"
    by (simp add: my_bookings_served [OF H] S example_booking_fields js_sort_def C)
  from my_bookings_newest_first [OF H, of example_js]
  obtain xs where X: "fst (my_bookings example_js ''u1'' example_world) = send 200 (Arr xs)"
    and O: "(\<forall>x \<in> set xs. bookingDate example_js x \<noteq> None) \<longrightarrow> sorted_wrt (not_older example_js) xs"
    by blast
  have "xs = [?v3, ?v1]"
    using X E by (simp add: send_def)
  then have "not_older example_js ?v3 ?v1"
    using O D1 D3 by simp
  then show ?thesis
    using H E D3 D1 by (simp only: simp_thms)
qed

end
